theory Spec2Isabelle
  imports Complex_Main
begin

section \<open>The host: a mesh in edit mode, as the add-on sees it\<close>

text \<open>
  The add-on runs inside Blender and touches the mesh only through the \<^verbatim>\<open>bmesh\<close>
  API. The part of that API the five operators call is modelled here.

  \<^item> An edge carries the three flags the operators read and write (\<^verbatim>\<open>select\<close>,
    \<^verbatim>\<open>smooth\<close>, \<^verbatim>\<open>seam\<close>) and one value per custom-data layer of the mesh.
    A sharp edge is an edge with \<^verbatim>\<open>smooth == False\<close>.
  \<^item> An edge reference held by the script is the position of the edge in
    \<^verbatim>\<open>bm.edges\<close>; a write through a reference updates the mesh in place.
  \<^item> \<^verbatim>\<open>bm.edges.layers.bevel_weight\<close> exists in older versions of the host only; where it
    is missing, reading it raises \<^verbatim>\<open>AttributeError\<close>.
  \<^item> A layer that is created gives every edge the default value \<open>0\<close>.
  \<^item> Every call made on the mesh is appended to a journal, so that the order of the calls of
    one operator run can be stated. The entry for the enumeration of \<^verbatim>\<open>bm.edges\<close> records
    the layers the mesh has at that moment.
\<close>

datatype py_error = AttributeError | InvalidLayerKey

datatype layer = BevelWeightLayer | FloatLayer string

record edge =
  select :: bool
  smooth :: bool
  seam :: bool
  cdata :: "layer \<rightharpoonup> real"

datatype host_call =
    LayersBevelWeightVerify
  | LayersFloatGet string
  | LayersFloatNew string
  | EdgesIter "layer list"
  | EdgeSetItem nat layer
  | EdgeSetSmooth nat
  | EdgeSetSeam nat
  | UpdateEditMesh

record bmesh =
  edges :: "edge list"
  bevel_weight_attr :: bool
  layers :: "layer list"
  journal :: "host_call list"

definition host_log :: "host_call \<Rightarrow> bmesh \<Rightarrow> bmesh" where
  "host_log c bm = bm\<lparr>journal := journal bm @ [c]\<rparr>"

definition add_layer :: "layer \<Rightarrow> bmesh \<Rightarrow> bmesh" where
  "add_layer l bm =
     bm\<lparr>edges := map (\<lambda>e. e\<lparr>cdata := (cdata e)(l \<mapsto> 0)\<rparr>) (edges bm),
        layers := layers bm @ [l]\<rparr>"

text \<open>
  \<^verbatim>\<open>bm.edges.layers.bevel_weight.verify()\<close>: the attribute lookup fails where the host has
  no dedicated bevel-weight collection; otherwise the layer is returned, created first when
  the mesh does not have it.
\<close>

definition layers_bevel_weight_verify :: "bmesh \<Rightarrow> py_error + layer \<times> bmesh" where
  "layers_bevel_weight_verify bm =
     (if bevel_weight_attr bm then
        (let bm1 = host_log LayersBevelWeightVerify bm
         in Inr (BevelWeightLayer,
                 if BevelWeightLayer \<in> set (layers bm1) then bm1
                 else add_layer BevelWeightLayer bm1))
      else Inl AttributeError)"

text \<open>\<^verbatim>\<open>bm.edges.layers.float.get(name)\<close>: the layer of that name, or \<^verbatim>\<open>None\<close>.\<close>

definition layers_float_get :: "string \<Rightarrow> bmesh \<Rightarrow> layer option \<times> bmesh" where
  "layers_float_get name bm =
     (if FloatLayer name \<in> set (layers bm) then Some (FloatLayer name) else None,
      host_log (LayersFloatGet name) bm)"

text \<open>
  \<^verbatim>\<open>bm.edges.layers.float.new(name)\<close>. The add-on calls it only after \<^verbatim>\<open>get\<close> found no
  layer of that name, and the layer is then created under the name asked for.
\<close>

definition layers_float_new :: "string \<Rightarrow> bmesh \<Rightarrow> layer \<times> bmesh" where
  "layers_float_new name bm =
     (FloatLayer name, add_layer (FloatLayer name) (host_log (LayersFloatNew name) bm))"

text \<open>\<^verbatim>\<open>[edge for edge in bm.edges if edge.select]\<close>: the references of the selected edges.\<close>

definition selected_edges_of :: "bmesh \<Rightarrow> nat list \<times> bmesh" where
  "selected_edges_of bm =
     (filter (\<lambda>i. select (edges bm ! i)) [0..<length (edges bm)],
      host_log (EdgesIter (layers bm)) bm)"

text \<open>
  \<^verbatim>\<open>edge[key] = v\<close>: the key is a layer, or \<^verbatim>\<open>None\<close> when the script never obtained one;
  the host rejects a key that is not a layer.
\<close>

definition edge_setitem :: "nat \<Rightarrow> layer option \<Rightarrow> real \<Rightarrow> bmesh \<Rightarrow> py_error + bmesh" where
  "edge_setitem i key v bm =
     (case key of
        None \<Rightarrow> Inl InvalidLayerKey
      | Some l \<Rightarrow>
          Inr (host_log (EdgeSetItem i l)
                 (bm\<lparr>edges := (edges bm)[i := (edges bm ! i)\<lparr>cdata := (cdata (edges bm ! i))(l \<mapsto> v)\<rparr>]\<rparr>)))"

definition edge_set_smooth :: "nat \<Rightarrow> bool \<Rightarrow> bmesh \<Rightarrow> bmesh" where
  "edge_set_smooth i v bm =
     host_log (EdgeSetSmooth i) (bm\<lparr>edges := (edges bm)[i := (edges bm ! i)\<lparr>smooth := v\<rparr>]\<rparr>)"

definition edge_set_seam :: "nat \<Rightarrow> bool \<Rightarrow> bmesh \<Rightarrow> bmesh" where
  "edge_set_seam i v bm =
     host_log (EdgeSetSeam i) (bm\<lparr>edges := (edges bm)[i := (edges bm ! i)\<lparr>seam := v\<rparr>]\<rparr>)"

definition update_edit_mesh :: "bmesh \<Rightarrow> bmesh" where
  "update_edit_mesh bm = host_log UpdateEditMesh bm"

record bl_object =
  otype :: string
  data :: bmesh

record bl_context =
  active_object :: "bl_object option"
  mode :: string

text \<open>\<^verbatim>\<open>bpy.ops.object.mode_set(mode='EDIT')\<close> on a mesh object.\<close>

definition mode_set_EDIT :: "bl_context \<Rightarrow> bl_context" where
  "mode_set_EDIT ctx = ctx\<lparr>mode := ''EDIT_MESH''\<rparr>"

section \<open>What an operator returns\<close>

text \<open>
  The messages are Chinese sentences in the source. \<open>MsgSelectMesh\<close> is "please select a mesh
  object", \<open>MsgNoEdges\<close> is "no edges selected", \<open>MsgConverted n\<close> is the general operator's
  "successfully converted n edges" and \<open>MsgQuickConverted n\<close> the quick operators'
  "converted n edges".
\<close>

datatype status = FINISHED | CANCELLED

datatype level = WARNING | INFO

datatype message = MsgSelectMesh | MsgNoEdges | MsgConverted nat | MsgQuickConverted nat

record outcome =
  ret :: status
  report :: "level \<times> message"
  ctx_out :: bl_context

definition store_mesh :: "bl_context \<Rightarrow> bl_object \<Rightarrow> bmesh \<Rightarrow> bl_context" where
  "store_mesh ctx obj bm = ctx\<lparr>active_object := Some (obj\<lparr>data := bm\<rparr>)\<rparr>"

text \<open>A \<^verbatim>\<open>for\<close> loop over edge references; an exception in the body ends the loop.\<close>

fun for_edges :: "(nat \<Rightarrow> 's \<Rightarrow> py_error + 's) \<Rightarrow> nat list \<Rightarrow> 's \<Rightarrow> py_error + 's" where
  "for_edges body [] st = Inr st"
| "for_edges body (i # rest) st =
     (case body i st of Inl e \<Rightarrow> Inl e | Inr st' \<Rightarrow> for_edges body rest st')"

section \<open>\<^verbatim>\<open>ensure_bevel_layer\<close>\<close>

definition ensure_bevel_layer :: "bmesh \<Rightarrow> py_error + layer \<times> bmesh" where
  "ensure_bevel_layer bm =
     (case layers_bevel_weight_verify bm of
        Inr r \<Rightarrow> Inr r
      | Inl AttributeError \<Rightarrow>
          (case layers_float_get ''bevel_weight_edge'' bm of
             (Some layer, bm1) \<Rightarrow> Inr (layer, bm1)
           | (None, bm1) \<Rightarrow> Inr (layers_float_new ''bevel_weight_edge'' bm1))
      | Inl e \<Rightarrow> Inl e)"

section \<open>The general operator \<^verbatim>\<open>MESH_OT_convert_edge_attributes\<close>\<close>

datatype conversion_type = SHARP_TO_BEVEL | SHARP_TO_SEAM | SEAM_TO_SHARP | SEAM_TO_BEVEL

text \<open>The value of the enum property is the identifier string of the chosen item.\<close>

fun ident :: "conversion_type \<Rightarrow> string" where
  "ident SHARP_TO_BEVEL = ''SHARP_TO_BEVEL''"
| "ident SHARP_TO_SEAM = ''SHARP_TO_SEAM''"
| "ident SEAM_TO_SHARP = ''SEAM_TO_SHARP''"
| "ident SEAM_TO_BEVEL = ''SEAM_TO_BEVEL''"

text \<open>Python's \<^verbatim>\<open>sub in s\<close> on strings.\<close>

fun starts_with :: "string \<Rightarrow> string \<Rightarrow> bool" where
  "starts_with [] s = True"
| "starts_with (c # cs) [] = False"
| "starts_with (c # cs) (d # ds) = (c = d \<and> starts_with cs ds)"

fun py_in :: "string \<Rightarrow> string \<Rightarrow> bool" where
  "py_in sub [] = (sub = [])"
| "py_in sub (c # cs) = (starts_with sub (c # cs) \<or> py_in sub cs)"

text \<open>
  The body of the loop of the general operator (lines 87 to 113), on the edge reference \<open>i\<close>
  and the pair of the mesh and \<^verbatim>\<open>modified_count\<close>. The conversion type is compared as the
  string it is.
\<close>

definition convert_edge ::
  "string \<Rightarrow> bool \<Rightarrow> layer option \<Rightarrow> nat \<Rightarrow> bmesh \<times> nat \<Rightarrow> py_error + bmesh \<times> nat" where
  "convert_edge conversion clear_original bw_layer i st =
     (case st of (bm, modified_count) \<Rightarrow>
        if conversion = ''SHARP_TO_BEVEL'' then
          (if smooth (edges bm ! i) = False then
             (case edge_setitem i bw_layer 1 bm of
                Inl e \<Rightarrow> Inl e
              | Inr bm1 \<Rightarrow>
                  Inr (if clear_original then edge_set_smooth i True bm1 else bm1,
                       modified_count + 1))
           else Inr (bm, modified_count))
        else if conversion = ''SHARP_TO_SEAM'' then
          (if smooth (edges bm ! i) = False then
             (let bm1 = edge_set_seam i True bm
              in Inr (if clear_original then edge_set_smooth i True bm1 else bm1,
                      modified_count + 1))
           else Inr (bm, modified_count))
        else if conversion = ''SEAM_TO_SHARP'' then
          (if seam (edges bm ! i) then
             (let bm1 = edge_set_smooth i False bm
              in Inr (if clear_original then edge_set_seam i False bm1 else bm1,
                      modified_count + 1))
           else Inr (bm, modified_count))
        else if conversion = ''SEAM_TO_BEVEL'' then
          (if seam (edges bm ! i) then
             (case edge_setitem i bw_layer 1 bm of
                Inl e \<Rightarrow> Inl e
              | Inr bm1 \<Rightarrow>
                  Inr (if clear_original then edge_set_seam i False bm1 else bm1,
                       modified_count + 1))
           else Inr (bm, modified_count))
        else Inr (bm, modified_count))"

text \<open>
  \<^verbatim>\<open>execute\<close> of the general operator (lines 57 to 119). The mesh of the active object is
  changed in place, so the context that is returned holds the mesh as the run left it, also
  when the run is cancelled for want of selected edges.
\<close>

definition execute :: "conversion_type \<Rightarrow> bool \<Rightarrow> bl_context \<Rightarrow> py_error + outcome" where
  "execute conversion_type clear_original ctx =
     (case active_object ctx of
        None \<Rightarrow> Inr \<lparr>ret = CANCELLED, report = (WARNING, MsgSelectMesh), ctx_out = ctx\<rparr>
      | Some obj \<Rightarrow>
          if otype obj \<noteq> ''MESH'' then
            Inr \<lparr>ret = CANCELLED, report = (WARNING, MsgSelectMesh), ctx_out = ctx\<rparr>
          else
            (let ctx1 = (if mode ctx \<noteq> ''EDIT_MESH'' then mode_set_EDIT ctx else ctx);
                 bm = data obj
             in case (if py_in ''BEVEL'' (ident conversion_type) then
                        (case ensure_bevel_layer bm of
                           Inl e \<Rightarrow> Inl e
                         | Inr (l, bm1) \<Rightarrow> Inr (Some l, bm1))
                      else Inr (None, bm)) of
                  Inl e \<Rightarrow> Inl e
                | Inr (bw_layer, bm1) \<Rightarrow>
                    (case selected_edges_of bm1 of
                       (selected_edges, bm2) \<Rightarrow>
                         if selected_edges = [] then
                           Inr \<lparr>ret = CANCELLED, report = (WARNING, MsgNoEdges),
                                ctx_out = store_mesh ctx1 obj bm2\<rparr>
                         else
                           (case for_edges
                                   (convert_edge (ident conversion_type) clear_original bw_layer)
                                   selected_edges (bm2, 0) of
                              Inl e \<Rightarrow> Inl e
                            | Inr (bm3, modified_count) \<Rightarrow>
                                Inr \<lparr>ret = FINISHED,
                                     report = (INFO, MsgConverted modified_count),
                                     ctx_out = store_mesh ctx1 obj (update_edit_mesh bm3)\<rparr>))))"

section \<open>The four quick operators\<close>

text \<open>
  Each quick operator has its own \<^verbatim>\<open>execute\<close> with its own loop; they are modelled one by
  one, as the source writes them, and named after their \<^verbatim>\<open>bl_idname\<close>. The two that write
  the bevel weight call \<open>ensure_bevel_layer\<close> unconditionally; the other two never do.
\<close>

subsection \<open>\<^verbatim>\<open>MESH_OT_quick_convert_sharp_to_bevel\<close>\<close>

definition quick_convert_sharp_to_bevel_edge ::
  "bool \<Rightarrow> layer option \<Rightarrow> nat \<Rightarrow> bmesh \<times> nat \<Rightarrow> py_error + bmesh \<times> nat" where
  "quick_convert_sharp_to_bevel_edge clear_original bw_layer i st =
     (case st of (bm, modified_count) \<Rightarrow>
        if smooth (edges bm ! i) = False then
          (case edge_setitem i bw_layer 1 bm of
             Inl e \<Rightarrow> Inl e
           | Inr bm1 \<Rightarrow>
               Inr (if clear_original then edge_set_smooth i True bm1 else bm1,
                    modified_count + 1))
        else Inr (bm, modified_count))"

definition quick_convert_sharp_to_bevel :: "bool \<Rightarrow> bl_context \<Rightarrow> py_error + outcome" where
  "quick_convert_sharp_to_bevel clear_original ctx =
     (case active_object ctx of
        None \<Rightarrow> Inr \<lparr>ret = CANCELLED, report = (WARNING, MsgSelectMesh), ctx_out = ctx\<rparr>
      | Some obj \<Rightarrow>
          if otype obj \<noteq> ''MESH'' then
            Inr \<lparr>ret = CANCELLED, report = (WARNING, MsgSelectMesh), ctx_out = ctx\<rparr>
          else
            (let ctx1 = (if mode ctx \<noteq> ''EDIT_MESH'' then mode_set_EDIT ctx else ctx);
                 bm = data obj
             in case ensure_bevel_layer bm of
                  Inl e \<Rightarrow> Inl e
                | Inr (bw_layer, bm1) \<Rightarrow>
                    (case selected_edges_of bm1 of
                       (selected_edges, bm2) \<Rightarrow>
                         if selected_edges = [] then
                           Inr \<lparr>ret = CANCELLED, report = (WARNING, MsgNoEdges),
                                ctx_out = store_mesh ctx1 obj bm2\<rparr>
                         else
                           (case for_edges
                                   (quick_convert_sharp_to_bevel_edge clear_original (Some bw_layer))
                                   selected_edges (bm2, 0) of
                              Inl e \<Rightarrow> Inl e
                            | Inr (bm3, modified_count) \<Rightarrow>
                                Inr \<lparr>ret = FINISHED,
                                     report = (INFO, MsgQuickConverted modified_count),
                                     ctx_out = store_mesh ctx1 obj (update_edit_mesh bm3)\<rparr>))))"

subsection \<open>\<^verbatim>\<open>MESH_OT_quick_convert_sharp_to_seam\<close>\<close>

definition quick_convert_sharp_to_seam_edge ::
  "bool \<Rightarrow> nat \<Rightarrow> bmesh \<times> nat \<Rightarrow> py_error + bmesh \<times> nat" where
  "quick_convert_sharp_to_seam_edge clear_original i st =
     (case st of (bm, modified_count) \<Rightarrow>
        if smooth (edges bm ! i) = False then
          (let bm1 = edge_set_seam i True bm
           in Inr (if clear_original then edge_set_smooth i True bm1 else bm1,
                   modified_count + 1))
        else Inr (bm, modified_count))"

definition quick_convert_sharp_to_seam :: "bool \<Rightarrow> bl_context \<Rightarrow> py_error + outcome" where
  "quick_convert_sharp_to_seam clear_original ctx =
     (case active_object ctx of
        None \<Rightarrow> Inr \<lparr>ret = CANCELLED, report = (WARNING, MsgSelectMesh), ctx_out = ctx\<rparr>
      | Some obj \<Rightarrow>
          if otype obj \<noteq> ''MESH'' then
            Inr \<lparr>ret = CANCELLED, report = (WARNING, MsgSelectMesh), ctx_out = ctx\<rparr>
          else
            (let ctx1 = (if mode ctx \<noteq> ''EDIT_MESH'' then mode_set_EDIT ctx else ctx);
                 bm = data obj
             in case selected_edges_of bm of
                  (selected_edges, bm2) \<Rightarrow>
                    if selected_edges = [] then
                      Inr \<lparr>ret = CANCELLED, report = (WARNING, MsgNoEdges),
                           ctx_out = store_mesh ctx1 obj bm2\<rparr>
                    else
                      (case for_edges (quick_convert_sharp_to_seam_edge clear_original)
                              selected_edges (bm2, 0) of
                         Inl e \<Rightarrow> Inl e
                       | Inr (bm3, modified_count) \<Rightarrow>
                           Inr \<lparr>ret = FINISHED,
                                report = (INFO, MsgQuickConverted modified_count),
                                ctx_out = store_mesh ctx1 obj (update_edit_mesh bm3)\<rparr>)))"

subsection \<open>\<^verbatim>\<open>MESH_OT_quick_convert_seam_to_sharp\<close>\<close>

definition quick_convert_seam_to_sharp_edge ::
  "bool \<Rightarrow> nat \<Rightarrow> bmesh \<times> nat \<Rightarrow> py_error + bmesh \<times> nat" where
  "quick_convert_seam_to_sharp_edge clear_original i st =
     (case st of (bm, modified_count) \<Rightarrow>
        if seam (edges bm ! i) then
          (let bm1 = edge_set_smooth i False bm
           in Inr (if clear_original then edge_set_seam i False bm1 else bm1,
                   modified_count + 1))
        else Inr (bm, modified_count))"

definition quick_convert_seam_to_sharp :: "bool \<Rightarrow> bl_context \<Rightarrow> py_error + outcome" where
  "quick_convert_seam_to_sharp clear_original ctx =
     (case active_object ctx of
        None \<Rightarrow> Inr \<lparr>ret = CANCELLED, report = (WARNING, MsgSelectMesh), ctx_out = ctx\<rparr>
      | Some obj \<Rightarrow>
          if otype obj \<noteq> ''MESH'' then
            Inr \<lparr>ret = CANCELLED, report = (WARNING, MsgSelectMesh), ctx_out = ctx\<rparr>
          else
            (let ctx1 = (if mode ctx \<noteq> ''EDIT_MESH'' then mode_set_EDIT ctx else ctx);
                 bm = data obj
             in case selected_edges_of bm of
                  (selected_edges, bm2) \<Rightarrow>
                    if selected_edges = [] then
                      Inr \<lparr>ret = CANCELLED, report = (WARNING, MsgNoEdges),
                           ctx_out = store_mesh ctx1 obj bm2\<rparr>
                    else
                      (case for_edges (quick_convert_seam_to_sharp_edge clear_original)
                              selected_edges (bm2, 0) of
                         Inl e \<Rightarrow> Inl e
                       | Inr (bm3, modified_count) \<Rightarrow>
                           Inr \<lparr>ret = FINISHED,
                                report = (INFO, MsgQuickConverted modified_count),
                                ctx_out = store_mesh ctx1 obj (update_edit_mesh bm3)\<rparr>)))"

subsection \<open>\<^verbatim>\<open>MESH_OT_quick_convert_seam_to_bevel\<close>\<close>

definition quick_convert_seam_to_bevel_edge ::
  "bool \<Rightarrow> layer option \<Rightarrow> nat \<Rightarrow> bmesh \<times> nat \<Rightarrow> py_error + bmesh \<times> nat" where
  "quick_convert_seam_to_bevel_edge clear_original bw_layer i st =
     (case st of (bm, modified_count) \<Rightarrow>
        if seam (edges bm ! i) then
          (case edge_setitem i bw_layer 1 bm of
             Inl e \<Rightarrow> Inl e
           | Inr bm1 \<Rightarrow>
               Inr (if clear_original then edge_set_seam i False bm1 else bm1,
                    modified_count + 1))
        else Inr (bm, modified_count))"

definition quick_convert_seam_to_bevel :: "bool \<Rightarrow> bl_context \<Rightarrow> py_error + outcome" where
  "quick_convert_seam_to_bevel clear_original ctx =
     (case active_object ctx of
        None \<Rightarrow> Inr \<lparr>ret = CANCELLED, report = (WARNING, MsgSelectMesh), ctx_out = ctx\<rparr>
      | Some obj \<Rightarrow>
          if otype obj \<noteq> ''MESH'' then
            Inr \<lparr>ret = CANCELLED, report = (WARNING, MsgSelectMesh), ctx_out = ctx\<rparr>
          else
            (let ctx1 = (if mode ctx \<noteq> ''EDIT_MESH'' then mode_set_EDIT ctx else ctx);
                 bm = data obj
             in case ensure_bevel_layer bm of
                  Inl e \<Rightarrow> Inl e
                | Inr (bw_layer, bm1) \<Rightarrow>
                    (case selected_edges_of bm1 of
                       (selected_edges, bm2) \<Rightarrow>
                         if selected_edges = [] then
                           Inr \<lparr>ret = CANCELLED, report = (WARNING, MsgNoEdges),
                                ctx_out = store_mesh ctx1 obj bm2\<rparr>
                         else
                           (case for_edges
                                   (quick_convert_seam_to_bevel_edge clear_original (Some bw_layer))
                                   selected_edges (bm2, 0) of
                              Inl e \<Rightarrow> Inl e
                            | Inr (bm3, modified_count) \<Rightarrow>
                                Inr \<lparr>ret = FINISHED,
                                     report = (INFO, MsgQuickConverted modified_count),
                                     ctx_out = store_mesh ctx1 obj (update_edit_mesh bm3)\<rparr>))))"

section \<open>The conversion rules as the specification tables them\<close>

text \<open>
  The specification describes a rule by a source predicate, a destination mutation and the
  clearing of the source. These definitions follow that table; the theorems below relate the
  operators, which are translated from the source, to them.
\<close>

definition is_sharp :: "edge \<Rightarrow> bool" where
  "is_sharp e = (smooth e = False)"

fun source_predicate :: "conversion_type \<Rightarrow> edge \<Rightarrow> bool" where
  "source_predicate SHARP_TO_BEVEL e = is_sharp e"
| "source_predicate SHARP_TO_SEAM e = is_sharp e"
| "source_predicate SEAM_TO_SHARP e = seam e"
| "source_predicate SEAM_TO_BEVEL e = seam e"

fun touches_bevel :: "conversion_type \<Rightarrow> bool" where
  "touches_bevel SHARP_TO_BEVEL = True"
| "touches_bevel SHARP_TO_SEAM = False"
| "touches_bevel SEAM_TO_SHARP = False"
| "touches_bevel SEAM_TO_BEVEL = True"

fun apply_rule :: "conversion_type \<Rightarrow> bool \<Rightarrow> layer \<Rightarrow> edge \<Rightarrow> edge" where
  "apply_rule SHARP_TO_BEVEL clear l e =
     (let e1 = e\<lparr>cdata := (cdata e)(l \<mapsto> 1)\<rparr> in if clear then e1\<lparr>smooth := True\<rparr> else e1)"
| "apply_rule SHARP_TO_SEAM clear l e =
     (let e1 = e\<lparr>seam := True\<rparr> in if clear then e1\<lparr>smooth := True\<rparr> else e1)"
| "apply_rule SEAM_TO_SHARP clear l e =
     (let e1 = e\<lparr>smooth := False\<rparr> in if clear then e1\<lparr>seam := False\<rparr> else e1)"
| "apply_rule SEAM_TO_BEVEL clear l e =
     (let e1 = e\<lparr>cdata := (cdata e)(l \<mapsto> 1)\<rparr> in if clear then e1\<lparr>seam := False\<rparr> else e1)"

text \<open>
  The layer that holds the bevel weight in this version of the host, and the bevel weight of
  the edge at position \<open>i\<close>: the value stored on that layer, \<open>0\<close> while the mesh has no such
  layer.
\<close>

definition bevel_layer_of :: "bmesh \<Rightarrow> layer" where
  "bevel_layer_of bm =
     (if bevel_weight_attr bm then BevelWeightLayer else FloatLayer ''bevel_weight_edge'')"

definition bevelWeight :: "bmesh \<Rightarrow> nat \<Rightarrow> real" where
  "bevelWeight bm i =
     (if bevel_layer_of bm \<in> set (layers bm) then
        (case cdata (edges bm ! i) (bevel_layer_of bm) of Some v \<Rightarrow> v | None \<Rightarrow> 0)
      else 0)"

definition init_layer :: "layer \<Rightarrow> edge \<Rightarrow> edge" where
  "init_layer l e = e\<lparr>cdata := (cdata e)(l \<mapsto> 0)\<rparr>"

section \<open>A run of an operator, stated on the mesh\<close>

text \<open>
  These definitions say in one expression what the theorems below prove a run leaves behind:
  the edges and layers once the storage a rule needs is there, the edges once the rule has
  been applied to the selected ones, and the number of selected edges the rule applies to.
\<close>

definition prepared_edges :: "conversion_type \<Rightarrow> bmesh \<Rightarrow> edge list" where
  "prepared_edges ct bm =
     (if touches_bevel ct \<and> bevel_layer_of bm \<notin> set (layers bm)
      then map (init_layer (bevel_layer_of bm)) (edges bm) else edges bm)"

definition prepared_layers :: "conversion_type \<Rightarrow> bmesh \<Rightarrow> layer list" where
  "prepared_layers ct bm =
     (if touches_bevel ct \<and> bevel_layer_of bm \<notin> set (layers bm)
      then layers bm @ [bevel_layer_of bm] else layers bm)"

definition convert_selected :: "conversion_type \<Rightarrow> bool \<Rightarrow> layer \<Rightarrow> edge \<Rightarrow> edge" where
  "convert_selected ct clear l e =
     (if select e \<and> source_predicate ct e then apply_rule ct clear l e else e)"

definition converted_edges :: "conversion_type \<Rightarrow> bool \<Rightarrow> bmesh \<Rightarrow> edge list" where
  "converted_edges ct clear bm =
     map (convert_selected ct clear (bevel_layer_of bm)) (prepared_edges ct bm)"

definition source_count :: "conversion_type \<Rightarrow> bmesh \<Rightarrow> nat" where
  "source_count ct bm = length (filter (source_predicate ct) (filter select (edges bm)))"

fun layer_call :: "host_call \<Rightarrow> bool" where
  "layer_call LayersBevelWeightVerify = True"
| "layer_call (LayersFloatGet n) = True"
| "layer_call (LayersFloatNew n) = True"
| "layer_call c = False"

fun edge_write :: "host_call \<Rightarrow> bool" where
  "edge_write (EdgeSetItem i l) = True"
| "edge_write (EdgeSetSmooth i) = True"
| "edge_write (EdgeSetSeam i) = True"
| "edge_write c = False"

definition the_mesh :: "bl_context \<Rightarrow> bmesh option" where
  "the_mesh ctx = map_option data (active_object ctx)"

definition valid_target :: "bl_context \<Rightarrow> bool" where
  "valid_target ctx =
     (case active_object ctx of None \<Rightarrow> False | Some obj \<Rightarrow> otype obj = ''MESH'')"

fun after_capture :: "host_call \<Rightarrow> bool" where
  "after_capture UpdateEditMesh = True"
| "after_capture c = edge_write c"

text \<open>
  The report of a quick operator that did what a run of the general operator did: the same
  level and count, in the quick operators' wording.
\<close>

definition quick_report :: "outcome \<Rightarrow> outcome" where
  "quick_report out =
     out\<lparr>report := (case report out of
                       (lv, MsgConverted n) \<Rightarrow> (lv, MsgQuickConverted n)
                     | r \<Rightarrow> r)\<rparr>"

section \<open>A mesh to run the operators on\<close>

text \<open>
  Three selected edges: \<open>edge_A\<close> is sharp, \<open>edge_B\<close> is a seam, \<open>edge_C\<close> is neither; a
  fourth edge is sharp and a seam but not selected. The host has no dedicated bevel-weight
  collection and the mesh has no layer yet; the object is in object mode.
\<close>

definition edge_A :: edge where
  "edge_A = \<lparr>select = True, smooth = False, seam = False, cdata = Map.empty\<rparr>"

definition edge_B :: edge where
  "edge_B = \<lparr>select = True, smooth = True, seam = True, cdata = Map.empty\<rparr>"

definition edge_C :: edge where
  "edge_C = \<lparr>select = True, smooth = True, seam = False, cdata = Map.empty\<rparr>"

definition edge_D :: edge where
  "edge_D = \<lparr>select = False, smooth = False, seam = True, cdata = Map.empty\<rparr>"

definition example_mesh :: bmesh where
  "example_mesh =
     \<lparr>edges = [edge_A, edge_B, edge_C, edge_D], bevel_weight_attr = False,
      layers = [], journal = []\<rparr>"

definition example_obj :: bl_object where
  "example_obj = \<lparr>otype = ''MESH'', data = example_mesh\<rparr>"

definition example_ctx :: bl_context where
  "example_ctx = \<lparr>active_object = Some example_obj, mode = ''OBJECT''\<rparr>"

text \<open>
  A mesh with one edge that is not selected, and a context whose active object is a curve.
\<close>

definition unselected_mesh :: bmesh where
  "unselected_mesh =
     \<lparr>edges = [edge_D], bevel_weight_attr = False, layers = [], journal = []\<rparr>"

definition unselected_ctx :: bl_context where
  "unselected_ctx =
     \<lparr>active_object = Some \<lparr>otype = ''MESH'', data = unselected_mesh\<rparr>, mode = ''EDIT_MESH''\<rparr>"

definition curve_ctx :: bl_context where
  "curve_ctx =
     \<lparr>active_object = Some \<lparr>otype = ''CURVE'', data = example_mesh\<rparr>, mode = ''OBJECT''\<rparr>"

section \<open>Reading the result of a run\<close>

definition result_status :: "py_error + outcome \<Rightarrow> status option" where
  "result_status r = (case r of Inl e \<Rightarrow> None | Inr out \<Rightarrow> Some (ret out))"

definition result_mesh :: "py_error + outcome \<Rightarrow> bmesh option" where
  "result_mesh r = (case r of Inl e \<Rightarrow> None | Inr out \<Rightarrow> the_mesh (ctx_out out))"

fun reported_count :: "message \<Rightarrow> nat option" where
  "reported_count (MsgConverted n) = Some n"
| "reported_count (MsgQuickConverted n) = Some n"
| "reported_count m = None"

text \<open>
  A run that was cancelled for want of selected edges and wrote no edge attribute: the flags
  and the bevel weight of every edge are as before, and the storage is as the preparation of
  the rule leaves it (unchanged, or with the bevel-weight layer added at its default).
\<close>

definition cancelled_no_edge_write ::
  "conversion_type \<Rightarrow> bmesh \<Rightarrow> py_error + outcome \<Rightarrow> bool" where
  "cancelled_no_edge_write ct bm r =
     (case r of
        Inl e \<Rightarrow> False
      | Inr out \<Rightarrow>
          ret out = CANCELLED \<and> report out = (WARNING, MsgNoEdges) \<and>
          (case the_mesh (ctx_out out) of
             None \<Rightarrow> False
           | Some bm' \<Rightarrow>
               map select (edges bm') = map select (edges bm) \<and>
               map smooth (edges bm') = map smooth (edges bm) \<and>
               map seam (edges bm') = map seam (edges bm) \<and>
               map (bevelWeight bm') [0..<length (edges bm)]
                 = map (bevelWeight bm) [0..<length (edges bm)] \<and>
               layers bm' = prepared_layers ct bm \<and>
               edges bm' = prepared_edges ct bm))"

text \<open>A run after which the edge at position \<open>i\<close> has the attributes it had in \<open>bm\<close>.\<close>

definition edge_unmodified :: "bmesh \<Rightarrow> nat \<Rightarrow> py_error + outcome \<Rightarrow> bool" where
  "edge_unmodified bm i r =
     (case result_mesh r of
        None \<Rightarrow> False
      | Some bm' \<Rightarrow>
          is_sharp (edges bm' ! i) = is_sharp (edges bm ! i) \<and>
          seam (edges bm' ! i) = seam (edges bm ! i) \<and>
          select (edges bm' ! i) = select (edges bm ! i) \<and>
          bevelWeight bm' i = bevelWeight bm i)"

text \<open>
  The calls of one run in the order the bevel rules need: first the calls that obtain the
  layer, then the enumeration of the edges, made on a mesh that has the layer, and after it
  nothing but writes to edges and the final update.
\<close>

definition capture_follows_ensure :: "layer \<Rightarrow> host_call list \<Rightarrow> bool" where
  "capture_follows_ensure l calls =
     (case dropWhile layer_call calls of
        EdgesIter ls # post \<Rightarrow>
          takeWhile layer_call calls \<noteq> [] \<and> l \<in> set ls \<and> list_all after_capture post
      | _ \<Rightarrow> False)"

definition storage_before_capture :: "bmesh \<Rightarrow> py_error + outcome \<Rightarrow> bool" where
  "storage_before_capture bm r =
     (case result_mesh r of
        None \<Rightarrow> False
      | Some bm' \<Rightarrow>
          take (length (journal bm)) (journal bm') = journal bm \<and>
          capture_follows_ensure (bevel_layer_of bm) (drop (length (journal bm)) (journal bm')))"

text \<open>
  Two runs with the same effect: the same exception, or the same return value, the same
  context and mesh afterwards, and a report of the same level and the same count.
\<close>

definition same_run :: "py_error + outcome \<Rightarrow> py_error + outcome \<Rightarrow> bool" where
  "same_run r q =
     (case r of
        Inl e \<Rightarrow> q = Inl e
      | Inr a \<Rightarrow>
          (case q of
             Inl e \<Rightarrow> False
           | Inr b \<Rightarrow>
               ret b = ret a \<and> ctx_out b = ctx_out a \<and>
               fst (report b) = fst (report a) \<and>
               reported_count (snd (report b)) = reported_count (snd (report a))))"

section \<open>Facts about the host calls\<close>

lemma ident_eq [simp]:
  "ident ct = ''SHARP_TO_BEVEL'' \<longleftrightarrow> ct = SHARP_TO_BEVEL"
  "ident ct = ''SHARP_TO_SEAM'' \<longleftrightarrow> ct = SHARP_TO_SEAM"
  "ident ct = ''SEAM_TO_SHARP'' \<longleftrightarrow> ct = SEAM_TO_SHARP"
  "ident ct = ''SEAM_TO_BEVEL'' \<longleftrightarrow> ct = SEAM_TO_BEVEL"
  by (cases ct; simp)+

lemma bevel_in_ident [simp]: "py_in ''BEVEL'' (ident ct) = touches_bevel ct"
  by (cases ct) simp_all

lemma ensure_bevel_layer_result:
  "\<exists>bm1 pre. ensure_bevel_layer bm = Inr (bevel_layer_of bm, bm1)
     \<and> edges bm1 = (if bevel_layer_of bm \<in> set (layers bm) then edges bm
                    else map (init_layer (bevel_layer_of bm)) (edges bm))
     \<and> layers bm1 = (if bevel_layer_of bm \<in> set (layers bm) then layers bm
                     else layers bm @ [bevel_layer_of bm])
     \<and> bevel_weight_attr bm1 = bevel_weight_attr bm
     \<and> journal bm1 = journal bm @ pre \<and> pre \<noteq> [] \<and> list_all layer_call pre"
  by (simp add: ensure_bevel_layer_def layers_bevel_weight_verify_def layers_float_get_def
      layers_float_new_def add_layer_def host_log_def bevel_layer_of_def init_layer_def Let_def)

section \<open>The loop of the general operator\<close>

lemma convert_edge_step:
  assumes "touches_bevel ct \<longrightarrow> bw = Some l" and "i < length (edges bm)"
  shows "\<exists>bm1 ws. convert_edge (ident ct) clear bw i (bm, n)
            = Inr (bm1, n + (if source_predicate ct (edges bm ! i) then 1 else 0))
     \<and> edges bm1 = (edges bm)[i := (if source_predicate ct (edges bm ! i)
                                     then apply_rule ct clear l (edges bm ! i) else edges bm ! i)]
     \<and> layers bm1 = layers bm
     \<and> bevel_weight_attr bm1 = bevel_weight_attr bm
     \<and> journal bm1 = journal bm @ ws \<and> list_all edge_write ws"
  using assms
  by (cases ct)
     (simp_all add: convert_edge_def edge_setitem_def edge_set_smooth_def edge_set_seam_def
        host_log_def is_sharp_def Let_def)

lemma convert_loop_result:
  assumes "touches_bevel ct \<longrightarrow> bw = Some l"
    and "distinct sel" and "\<forall>i\<in>set sel. i < length (edges bm)"
  shows "\<exists>bm' ws. for_edges (convert_edge (ident ct) clear bw) sel (bm, n)
            = Inr (bm', n + length (filter (\<lambda>i. source_predicate ct (edges bm ! i)) sel))
     \<and> length (edges bm') = length (edges bm)
     \<and> (\<forall>j<length (edges bm). edges bm' ! j =
           (if j \<in> set sel \<and> source_predicate ct (edges bm ! j)
            then apply_rule ct clear l (edges bm ! j) else edges bm ! j))
     \<and> layers bm' = layers bm
     \<and> bevel_weight_attr bm' = bevel_weight_attr bm
     \<and> journal bm' = journal bm @ ws \<and> list_all edge_write ws"
  using assms(2,3)
proof (induction sel arbitrary: bm n)
  case Nil
  then show ?case by simp
next
  case (Cons i rest)
  let ?n1 = "n + (if source_predicate ct (edges bm ! i) then 1 else 0)"
  have ilt: "i < length (edges bm)" using Cons.prems(2) by simp
  obtain bm1 ws1 where
    step: "convert_edge (ident ct) clear bw i (bm, n) = Inr (bm1, ?n1)"
    and e1: "edges bm1 = (edges bm)[i := (if source_predicate ct (edges bm ! i)
                                     then apply_rule ct clear l (edges bm ! i) else edges bm ! i)]"
    and l1: "layers bm1 = layers bm"
    and a1: "bevel_weight_attr bm1 = bevel_weight_attr bm"
    and j1: "journal bm1 = journal bm @ ws1" and w1: "list_all edge_write ws1"
    using convert_edge_step [OF assms(1) ilt, of clear n] by blast
  have len1: "length (edges bm1) = length (edges bm)" by (simp add: e1)
  have notin: "i \<notin> set rest" and drest: "distinct rest" using Cons.prems(1) by simp_all
  have same: "edges bm1 ! j = edges bm ! j" if "j \<in> set rest" for j
  proof -
    have "j \<noteq> i" using that notin by blast
    then show ?thesis by (simp add: e1)
  qed
  have range1: "\<forall>j\<in>set rest. j < length (edges bm1)" using Cons.prems(2) len1 by simp
  obtain bm' ws where
    loop: "for_edges (convert_edge (ident ct) clear bw) rest (bm1, ?n1)
            = Inr (bm', ?n1 + length (filter (\<lambda>j. source_predicate ct (edges bm1 ! j)) rest))"
    and len': "length (edges bm') = length (edges bm1)"
    and nth': "\<forall>j<length (edges bm1). edges bm' ! j =
           (if j \<in> set rest \<and> source_predicate ct (edges bm1 ! j)
            then apply_rule ct clear l (edges bm1 ! j) else edges bm1 ! j)"
    and l': "layers bm' = layers bm1"
    and a': "bevel_weight_attr bm' = bevel_weight_attr bm1"
    and j': "journal bm' = journal bm1 @ ws" and w': "list_all edge_write ws"
    using Cons.IH [OF drest range1, of ?n1] by blast
  have cnt: "filter (\<lambda>j. source_predicate ct (edges bm1 ! j)) rest
           = filter (\<lambda>j. source_predicate ct (edges bm ! j)) rest"
    by (rule filter_cong) (simp_all add: same)
  have res: "for_edges (convert_edge (ident ct) clear bw) (i # rest) (bm, n)
            = Inr (bm', n + length (filter (\<lambda>j. source_predicate ct (edges bm ! j)) (i # rest)))"
    by (simp add: step loop cnt)
  have nth: "\<forall>j<length (edges bm). edges bm' ! j =
           (if j \<in> set (i # rest) \<and> source_predicate ct (edges bm ! j)
            then apply_rule ct clear l (edges bm ! j) else edges bm ! j)"
  proof (intro allI impI)
    fix j assume jlt: "j < length (edges bm)"
    show "edges bm' ! j =
           (if j \<in> set (i # rest) \<and> source_predicate ct (edges bm ! j)
            then apply_rule ct clear l (edges bm ! j) else edges bm ! j)"
    proof (cases "j = i")
      case True
      then show ?thesis using nth' jlt len1 notin by (simp add: e1)
    next
      case False
      then show ?thesis using nth' jlt len1 by (simp add: e1)
    qed
  qed
  have jr: "journal bm' = journal bm @ (ws1 @ ws)" and wr: "list_all edge_write (ws1 @ ws)"
    by (simp_all add: j' j1 w1 w')
  have len: "length (edges bm') = length (edges bm)" by (simp add: len' len1)
  have lay: "layers bm' = layers bm" by (simp add: l' l1)
  have att: "bevel_weight_attr bm' = bevel_weight_attr bm" by (simp add: a' a1)
  from res len nth lay att jr wr show ?case by blast
qed

section \<open>The selection\<close>

lemma nth_filter_indices:
  "map ((!) xs) (filter (\<lambda>i. P (xs ! i)) [0..<length xs]) = filter P xs"
proof -
  have "filter P xs = filter P (map ((!) xs) [0..<length xs])"
    by (simp add: map_nth)
  also have "\<dots> = map ((!) xs) (filter (P \<circ> (!) xs) [0..<length xs])"
    by (simp only: filter_map)
  finally show ?thesis by (simp add: comp_def)
qed

lemma selected_edges_of_result:
  "\<exists>sel. selected_edges_of bm = (sel, host_log (EdgesIter (layers bm)) bm)
     \<and> distinct sel
     \<and> (\<forall>j. j \<in> set sel \<longleftrightarrow> j < length (edges bm) \<and> select (edges bm ! j))
     \<and> (sel = [] \<longleftrightarrow> filter select (edges bm) = [])
     \<and> (\<forall>P. length (filter (\<lambda>i. P (edges bm ! i)) sel)
             = length (filter P (filter select (edges bm))))"
proof -
  let ?sel = "filter (\<lambda>i. select (edges bm ! i)) [0..<length (edges bm)]"
  have m: "map ((!) (edges bm)) ?sel = filter select (edges bm)"
    by (rule nth_filter_indices)
  have empty: "?sel = [] \<longleftrightarrow> filter select (edges bm) = []"
    using m by (metis map_is_Nil_conv)
  have count: "length (filter (\<lambda>i. P (edges bm ! i)) ?sel)
             = length (filter P (filter select (edges bm)))" for P
  proof -
    have "filter P (map ((!) (edges bm)) ?sel)
        = map ((!) (edges bm)) (filter (P \<circ> (!) (edges bm)) ?sel)"
      by (simp only: filter_map)
    then have "length (filter P (filter select (edges bm)))
        = length (filter (P \<circ> (!) (edges bm)) ?sel)"
      by (simp only: m length_map)
    then show ?thesis by (simp add: comp_def)
  qed
  have "selected_edges_of bm = (?sel, host_log (EdgesIter (layers bm)) bm)"
    by (simp add: selected_edges_of_def)
  moreover have "distinct ?sel" by simp
  moreover have "\<forall>j. j \<in> set ?sel \<longleftrightarrow> j < length (edges bm) \<and> select (edges bm ! j)"
    by auto
  ultimately show ?thesis using empty count by blast
qed

lemma init_layer_fields [simp]:
  "select (init_layer l e) = select e"
  "smooth (init_layer l e) = smooth e"
  "seam (init_layer l e) = seam e"
  by (simp_all add: init_layer_def)

lemma source_predicate_init_layer [simp]:
  "source_predicate ct (init_layer l e) = source_predicate ct e"
  by (cases ct) (simp_all add: is_sharp_def)

lemma prepared_edges_length [simp]: "length (prepared_edges ct bm) = length (edges bm)"
  by (simp add: prepared_edges_def)

lemma prepared_edges_nth:
  "j < length (edges bm) \<Longrightarrow>
   prepared_edges ct bm ! j =
     (if touches_bevel ct \<and> bevel_layer_of bm \<notin> set (layers bm)
      then init_layer (bevel_layer_of bm) (edges bm ! j) else edges bm ! j)"
  by (simp add: prepared_edges_def)

lemma prepared_edges_selection:
  "filter select (prepared_edges ct bm) = [] \<longleftrightarrow> filter select (edges bm) = []"
  by (simp add: prepared_edges_def filter_empty_conv)

lemma prepared_edges_count:
  "length (filter (source_predicate ct) (filter select (prepared_edges ct' bm)))
     = source_count ct bm"
  by (simp add: prepared_edges_def source_count_def filter_map comp_def)

section \<open>One run of the general operator\<close>

lemma prepare_result:
  "\<exists>bw bm1 pre.
     (if py_in ''BEVEL'' (ident ct) then
        (case ensure_bevel_layer bm of
           Inl e \<Rightarrow> Inl e
         | Inr (l, bm1) \<Rightarrow> Inr (Some l, bm1))
      else Inr (None, bm)) = Inr (bw, bm1)
     \<and> (touches_bevel ct \<longrightarrow> bw = Some (bevel_layer_of bm))
     \<and> edges bm1 = prepared_edges ct bm
     \<and> layers bm1 = prepared_layers ct bm
     \<and> bevel_weight_attr bm1 = bevel_weight_attr bm
     \<and> journal bm1 = journal bm @ pre
     \<and> list_all layer_call pre \<and> (pre \<noteq> [] \<longleftrightarrow> touches_bevel ct)"
proof (cases "touches_bevel ct")
  case True
  obtain bm1 pre where "ensure_bevel_layer bm = Inr (bevel_layer_of bm, bm1)"
    and "edges bm1 = (if bevel_layer_of bm \<in> set (layers bm) then edges bm
                    else map (init_layer (bevel_layer_of bm)) (edges bm))"
    and "layers bm1 = (if bevel_layer_of bm \<in> set (layers bm) then layers bm
                     else layers bm @ [bevel_layer_of bm])"
    and "bevel_weight_attr bm1 = bevel_weight_attr bm"
    and "journal bm1 = journal bm @ pre" and "pre \<noteq> []" and "list_all layer_call pre"
    using ensure_bevel_layer_result [of bm] by blast
  with True show ?thesis
    by (simp add: prepared_edges_def prepared_layers_def)
next
  case False
  then show ?thesis
    by (simp add: prepared_edges_def prepared_layers_def)
qed

lemma convert_pass_result:
  assumes "touches_bevel ct \<longrightarrow> bw = Some l"
    and "selected_edges_of bm1 = (sel, bm2)"
  shows "\<exists>bm3 ws. for_edges (convert_edge (ident ct) clear bw) sel (bm2, 0)
            = Inr (bm3, length (filter (source_predicate ct) (filter select (edges bm1))))
     \<and> edges bm3 = map (convert_selected ct clear l) (edges bm1)
     \<and> layers bm3 = layers bm1
     \<and> bevel_weight_attr bm3 = bevel_weight_attr bm1
     \<and> journal bm3 = journal bm1 @ EdgesIter (layers bm1) # ws \<and> list_all edge_write ws"
proof -
  obtain sel' where s: "selected_edges_of bm1 = (sel', host_log (EdgesIter (layers bm1)) bm1)"
    and d: "distinct sel'"
    and mem: "\<forall>j. j \<in> set sel' \<longleftrightarrow> j < length (edges bm1) \<and> select (edges bm1 ! j)"
    and cnt: "\<forall>P. length (filter (\<lambda>i. P (edges bm1 ! i)) sel')
                 = length (filter P (filter select (edges bm1)))"
    using selected_edges_of_result [of bm1] by blast
  have sel: "sel' = sel" and bm2: "bm2 = host_log (EdgesIter (layers bm1)) bm1"
    using s assms(2) by simp_all
  have e2: "edges bm2 = edges bm1" and l2: "layers bm2 = layers bm1"
    and a2: "bevel_weight_attr bm2 = bevel_weight_attr bm1"
    and j2: "journal bm2 = journal bm1 @ [EdgesIter (layers bm1)]"
    by (simp_all add: bm2 host_log_def)
  have range: "\<forall>i\<in>set sel. i < length (edges bm2)"
    using mem sel e2 by simp
  have dist: "distinct sel" using d sel by simp
  obtain bm3 ws where
    loop: "for_edges (convert_edge (ident ct) clear bw) sel (bm2, 0)
            = Inr (bm3, 0 + length (filter (\<lambda>i. source_predicate ct (edges bm2 ! i)) sel))"
    and len3: "length (edges bm3) = length (edges bm2)"
    and nth3: "\<forall>j<length (edges bm2). edges bm3 ! j =
           (if j \<in> set sel \<and> source_predicate ct (edges bm2 ! j)
            then apply_rule ct clear l (edges bm2 ! j) else edges bm2 ! j)"
    and l3: "layers bm3 = layers bm2"
    and a3: "bevel_weight_attr bm3 = bevel_weight_attr bm2"
    and j3: "journal bm3 = journal bm2 @ ws" and w3: "list_all edge_write ws"
    using convert_loop_result [OF assms(1) dist range, of clear 0] by blast
  have count: "length (filter (\<lambda>i. source_predicate ct (edges bm2 ! i)) sel)
             = length (filter (source_predicate ct) (filter select (edges bm1)))"
    using cnt sel e2 by simp
  have res: "for_edges (convert_edge (ident ct) clear bw) sel (bm2, 0)
            = Inr (bm3, length (filter (source_predicate ct) (filter select (edges bm1))))"
    using loop count by simp
  have edges3: "edges bm3 = map (convert_selected ct clear l) (edges bm1)"
  proof (rule nth_equalityI)
    show "length (edges bm3) = length (map (convert_selected ct clear l) (edges bm1))"
      by (simp add: len3 e2)
  next
    fix j assume "j < length (edges bm3)"
    then have jlt: "j < length (edges bm1)" by (simp add: len3 e2)
    then have "edges bm3 ! j =
           (if j \<in> set sel \<and> source_predicate ct (edges bm1 ! j)
            then apply_rule ct clear l (edges bm1 ! j) else edges bm1 ! j)"
      using nth3 e2 by simp
    moreover have "j \<in> set sel \<longleftrightarrow> select (edges bm1 ! j)"
      using mem sel jlt by simp
    ultimately show "edges bm3 ! j = map (convert_selected ct clear l) (edges bm1) ! j"
      using jlt by (simp add: convert_selected_def)
  qed
  have lay: "layers bm3 = layers bm1" by (simp add: l3 l2)
  have att: "bevel_weight_attr bm3 = bevel_weight_attr bm1" by (simp add: a3 a2)
  have jr: "journal bm3 = journal bm1 @ EdgesIter (layers bm1) # ws" by (simp add: j3 j2)
  from res edges3 lay att jr w3 show ?thesis by blast
qed

lemma execute_result:
  assumes "active_object ctx = Some obj" and "otype obj = ''MESH''"
  shows "\<exists>bm' pre post.
     execute ct clear ctx =
       Inr \<lparr>ret = (if filter select (edges (data obj)) = [] then CANCELLED else FINISHED),
            report = (if filter select (edges (data obj)) = [] then (WARNING, MsgNoEdges)
                      else (INFO, MsgConverted (source_count ct (data obj)))),
            ctx_out = store_mesh (if mode ctx \<noteq> ''EDIT_MESH'' then mode_set_EDIT ctx else ctx)
                        obj bm'\<rparr>
     \<and> edges bm' = converted_edges ct clear (data obj)
     \<and> layers bm' = prepared_layers ct (data obj)
     \<and> bevel_weight_attr bm' = bevel_weight_attr (data obj)
     \<and> journal bm' = journal (data obj) @ pre @ EdgesIter (prepared_layers ct (data obj)) # post
     \<and> list_all layer_call pre \<and> (pre \<noteq> [] \<longleftrightarrow> touches_bevel ct)
     \<and> list_all after_capture post"
proof -
  let ?bm = "data obj"
  let ?l = "bevel_layer_of ?bm"
  let ?ctx1 = "if mode ctx \<noteq> ''EDIT_MESH'' then mode_set_EDIT ctx else ctx"
  obtain bw bm1 pre where
    prep: "(if py_in ''BEVEL'' (ident ct) then
        (case ensure_bevel_layer ?bm of
           Inl e \<Rightarrow> Inl e
         | Inr (l, bm1) \<Rightarrow> Inr (Some l, bm1))
      else Inr (None, ?bm)) = Inr (bw, bm1)"
    and bw: "touches_bevel ct \<longrightarrow> bw = Some ?l"
    and e1: "edges bm1 = prepared_edges ct ?bm"
    and l1: "layers bm1 = prepared_layers ct ?bm"
    and a1: "bevel_weight_attr bm1 = bevel_weight_attr ?bm"
    and j1: "journal bm1 = journal ?bm @ pre"
    and p1: "list_all layer_call pre" and p2: "pre \<noteq> [] \<longleftrightarrow> touches_bevel ct"
    using prepare_result [of ct ?bm] by blast
  obtain sel where s: "selected_edges_of bm1 = (sel, host_log (EdgesIter (layers bm1)) bm1)"
    and empty: "sel = [] \<longleftrightarrow> filter select (edges bm1) = []"
    using selected_edges_of_result [of bm1] by blast
  have empty': "sel = [] \<longleftrightarrow> filter select (edges ?bm) = []"
    using empty by (simp add: e1 prepared_edges_selection)
  show ?thesis
  proof (cases "sel = []")
    case True
    let ?bm' = "host_log (EdgesIter (layers bm1)) bm1"
    have none: "\<forall>e\<in>set (prepared_edges ct ?bm). \<not> select e"
      using True empty by (simp add: e1 filter_empty_conv)
    have ex: "execute ct clear ctx =
       Inr \<lparr>ret = CANCELLED, report = (WARNING, MsgNoEdges), ctx_out = store_mesh ?ctx1 obj ?bm'\<rparr>"
      using assms prep s True by (simp add: execute_def Let_def)
    have ed: "edges ?bm' = converted_edges ct clear ?bm"
      using none by (simp add: host_log_def e1 converted_edges_def convert_selected_def map_idI)
    have "layers ?bm' = prepared_layers ct ?bm"
      and "bevel_weight_attr ?bm' = bevel_weight_attr ?bm"
      and "journal ?bm' = journal ?bm @ pre @ EdgesIter (prepared_layers ct ?bm) # []"
      and "list_all after_capture []"
      by (simp_all add: host_log_def l1 a1 j1)
    with ex ed p1 p2 True empty' show ?thesis by (intro exI [of _ ?bm'] exI [of _ pre] exI [of _ "[]"]) simp
  next
    case False
    obtain bm3 ws where
      loop: "for_edges (convert_edge (ident ct) clear bw) sel (host_log (EdgesIter (layers bm1)) bm1, 0)
            = Inr (bm3, length (filter (source_predicate ct) (filter select (edges bm1))))"
      and e3: "edges bm3 = map (convert_selected ct clear ?l) (edges bm1)"
      and l3: "layers bm3 = layers bm1"
      and a3: "bevel_weight_attr bm3 = bevel_weight_attr bm1"
      and j3: "journal bm3 = journal bm1 @ EdgesIter (layers bm1) # ws" and w3: "list_all edge_write ws"
      using convert_pass_result [OF bw s, of clear] by blast
    let ?bm' = "update_edit_mesh bm3"
    have cnt: "length (filter (source_predicate ct) (filter select (edges bm1)))
             = source_count ct ?bm"
      by (simp only: e1 prepared_edges_count)
    have ex: "execute ct clear ctx =
       Inr \<lparr>ret = FINISHED, report = (INFO, MsgConverted (source_count ct ?bm)),
            ctx_out = store_mesh ?ctx1 obj ?bm'\<rparr>"
      using assms prep s False loop cnt by (simp add: execute_def Let_def)
    have ed: "edges ?bm' = converted_edges ct clear ?bm"
      by (simp add: update_edit_mesh_def host_log_def e3 e1 converted_edges_def)
    have w3': "list_all after_capture (ws @ [UpdateEditMesh])"
      using w3 by (induction ws) (auto elim: edge_write.elims)
    have "layers ?bm' = prepared_layers ct ?bm"
      and "bevel_weight_attr ?bm' = bevel_weight_attr ?bm"
      and "journal ?bm' = journal ?bm @ pre @ EdgesIter (prepared_layers ct ?bm) # (ws @ [UpdateEditMesh])"
      by (simp_all add: update_edit_mesh_def host_log_def l3 l1 a3 a1 j3 j1)
    with ex ed p1 p2 False empty' w3' show ?thesis
      by (intro exI [of _ ?bm'] exI [of _ pre] exI [of _ "ws @ [UpdateEditMesh]"]) simp
  qed
qed

section \<open>The quick operators against the general one\<close>

lemma quick_convert_sharp_to_bevel_edge_eq:
  "convert_edge ''SHARP_TO_BEVEL'' c bw = quick_convert_sharp_to_bevel_edge c bw"
  by (intro ext) (simp add: convert_edge_def quick_convert_sharp_to_bevel_edge_def)

lemma quick_convert_sharp_to_seam_edge_eq:
  "convert_edge ''SHARP_TO_SEAM'' c bw = quick_convert_sharp_to_seam_edge c"
  by (intro ext) (simp add: convert_edge_def quick_convert_sharp_to_seam_edge_def)

lemma quick_convert_seam_to_sharp_edge_eq:
  "convert_edge ''SEAM_TO_SHARP'' c bw = quick_convert_seam_to_sharp_edge c"
  by (intro ext) (simp add: convert_edge_def quick_convert_seam_to_sharp_edge_def)

lemma quick_convert_seam_to_bevel_edge_eq:
  "convert_edge ''SEAM_TO_BEVEL'' c bw = quick_convert_seam_to_bevel_edge c bw"
  by (intro ext) (simp add: convert_edge_def quick_convert_seam_to_bevel_edge_def)

lemma quick_convert_sharp_to_bevel_as_execute:
  "quick_convert_sharp_to_bevel c ctx = map_sum id quick_report (execute SHARP_TO_BEVEL c ctx)"
  by (simp add: execute_def quick_convert_sharp_to_bevel_def quick_report_def
      quick_convert_sharp_to_bevel_edge_eq Let_def
      split: option.splits sum.splits prod.splits)

lemma quick_convert_sharp_to_seam_as_execute:
  "quick_convert_sharp_to_seam c ctx = map_sum id quick_report (execute SHARP_TO_SEAM c ctx)"
  by (simp add: execute_def quick_convert_sharp_to_seam_def quick_report_def
      quick_convert_sharp_to_seam_edge_eq Let_def
      split: option.splits sum.splits prod.splits)

lemma quick_convert_seam_to_sharp_as_execute:
  "quick_convert_seam_to_sharp c ctx = map_sum id quick_report (execute SEAM_TO_SHARP c ctx)"
  by (simp add: execute_def quick_convert_seam_to_sharp_def quick_report_def
      quick_convert_seam_to_sharp_edge_eq Let_def
      split: option.splits sum.splits prod.splits)

lemma quick_convert_seam_to_bevel_as_execute:
  "quick_convert_seam_to_bevel c ctx = map_sum id quick_report (execute SEAM_TO_BEVEL c ctx)"
  by (simp add: execute_def quick_convert_seam_to_bevel_def quick_report_def
      quick_convert_seam_to_bevel_edge_eq Let_def
      split: option.splits sum.splits prod.splits)

section \<open>What a run does to one edge\<close>

lemma execute_outcome:
  assumes "active_object ctx = Some obj" and "otype obj = ''MESH''"
  shows "\<exists>bm' out. execute ct clear ctx = Inr out
     \<and> ret out = (if filter select (edges (data obj)) = [] then CANCELLED else FINISHED)
     \<and> report out = (if filter select (edges (data obj)) = [] then (WARNING, MsgNoEdges)
                      else (INFO, MsgConverted (source_count ct (data obj))))
     \<and> active_object (ctx_out out) = Some (obj\<lparr>data := bm'\<rparr>)
     \<and> mode (ctx_out out) = ''EDIT_MESH''
     \<and> edges bm' = converted_edges ct clear (data obj)
     \<and> layers bm' = prepared_layers ct (data obj)
     \<and> bevel_weight_attr bm' = bevel_weight_attr (data obj)"
proof -
  obtain bm' where
    "execute ct clear ctx =
       Inr \<lparr>ret = (if filter select (edges (data obj)) = [] then CANCELLED else FINISHED),
            report = (if filter select (edges (data obj)) = [] then (WARNING, MsgNoEdges)
                      else (INFO, MsgConverted (source_count ct (data obj)))),
            ctx_out = store_mesh (if mode ctx \<noteq> ''EDIT_MESH'' then mode_set_EDIT ctx else ctx)
                        obj bm'\<rparr>"
    and "edges bm' = converted_edges ct clear (data obj)"
    and "layers bm' = prepared_layers ct (data obj)"
    and "bevel_weight_attr bm' = bevel_weight_attr (data obj)"
    using execute_result [OF assms, of ct clear] by blast
  then show ?thesis
    by (intro exI [of _ bm']) (simp add: store_mesh_def mode_set_EDIT_def)
qed

lemma selected_nonempty:
  "i < length xs \<Longrightarrow> select (xs ! i) \<Longrightarrow> filter select xs \<noteq> []"
  by (auto simp: filter_empty_conv)

lemma converted_edges_length [simp]:
  "length (converted_edges ct clear bm) = length (edges bm)"
  by (simp add: converted_edges_def)

lemma converted_edges_nth:
  "i < length (edges bm) \<Longrightarrow>
   converted_edges ct clear bm ! i =
     convert_selected ct clear (bevel_layer_of bm) (prepared_edges ct bm ! i)"
  by (simp add: converted_edges_def)

lemma converted_select:
  "i < length (edges bm) \<Longrightarrow>
   select (converted_edges ct clear bm ! i) = select (edges bm ! i)"
  by (cases ct)
     (simp_all add: converted_edges_nth prepared_edges_nth convert_selected_def Let_def)

lemma converted_smooth:
  "i < length (edges bm) \<Longrightarrow>
   smooth (converted_edges ct clear bm ! i) =
     (if select (edges bm ! i) \<and> source_predicate ct (edges bm ! i)
      then (if ct = SEAM_TO_SHARP then False
            else if ct = SEAM_TO_BEVEL then smooth (edges bm ! i) else clear)
      else smooth (edges bm ! i))"
  by (cases ct)
     (auto simp add: converted_edges_nth prepared_edges_nth convert_selected_def Let_def
        is_sharp_def)

lemma converted_seam:
  "i < length (edges bm) \<Longrightarrow>
   seam (converted_edges ct clear bm ! i) =
     (if select (edges bm ! i) \<and> source_predicate ct (edges bm ! i)
      then (if ct = SHARP_TO_SEAM then True
            else if ct = SHARP_TO_BEVEL then seam (edges bm ! i) else \<not> clear)
      else seam (edges bm ! i))"
  by (cases ct)
     (auto simp add: converted_edges_nth prepared_edges_nth convert_selected_def Let_def
        is_sharp_def)

lemma converted_bevelWeight:
  assumes "edges bm' = converted_edges ct clear bm"
    and "layers bm' = prepared_layers ct bm"
    and "bevel_weight_attr bm' = bevel_weight_attr bm"
    and "i < length (edges bm)"
  shows "bevelWeight bm' i =
     (if touches_bevel ct \<and> select (edges bm ! i) \<and> source_predicate ct (edges bm ! i)
      then 1 else bevelWeight bm i)"
proof -
  have l: "bevel_layer_of bm' = bevel_layer_of bm"
    by (simp add: bevel_layer_of_def assms(3))
  show ?thesis
    using assms(4)
    by (cases ct)
       (auto simp add: bevelWeight_def l assms(1,2) prepared_layers_def converted_edges_nth
          prepared_edges_nth convert_selected_def init_layer_def is_sharp_def Let_def)
qed

lemma quick_report_fields [simp]:
  "ret (quick_report out) = ret out"
  "ctx_out (quick_report out) = ctx_out out"
  by (simp_all add: quick_report_def)

lemma example_facts:
  "active_object example_ctx = Some example_obj"
  "otype example_obj = ''MESH''"
  "edges (data example_obj) = [edge_A, edge_B, edge_C, edge_D]"
  by (simp_all add: example_ctx_def example_obj_def example_mesh_def)

section \<open>The claims\<close>

text \<open>
  C1. An edge that is selected and sharp before a sharp-to-bevel conversion with
  \<open>clear_original\<close> set has bevel weight \<open>1.0\<close> and is no longer sharp afterwards. This holds
  for the general operator with \<open>SHARP_TO_BEVEL\<close> and for the quick operator, which both
  finish.
\<close>

theorem sharp_to_bevel_sets_weight_and_clears_sharp:
  assumes "active_object ctx = Some obj" and "otype obj = ''MESH''"
    and "i < length (edges (data obj))"
    and "select (edges (data obj) ! i)" and "is_sharp (edges (data obj) ! i)"
  shows "(\<exists>out bm'. execute SHARP_TO_BEVEL True ctx = Inr out \<and> ret out = FINISHED
            \<and> the_mesh (ctx_out out) = Some bm'
            \<and> bevelWeight bm' i = 1 \<and> \<not> is_sharp (edges bm' ! i))
       \<and> (\<exists>out bm'. quick_convert_sharp_to_bevel True ctx = Inr out \<and> ret out = FINISHED
            \<and> the_mesh (ctx_out out) = Some bm'
            \<and> bevelWeight bm' i = 1 \<and> \<not> is_sharp (edges bm' ! i))"
proof -
  let ?bm = "data obj"
  obtain bm' out where ex: "execute SHARP_TO_BEVEL True ctx = Inr out"
    and r: "ret out = (if filter select (edges ?bm) = [] then CANCELLED else FINISHED)"
    and a: "active_object (ctx_out out) = Some (obj\<lparr>data := bm'\<rparr>)"
    and e: "edges bm' = converted_edges SHARP_TO_BEVEL True ?bm"
    and l: "layers bm' = prepared_layers SHARP_TO_BEVEL ?bm"
    and b: "bevel_weight_attr bm' = bevel_weight_attr ?bm"
    using execute_outcome [OF assms(1,2), of SHARP_TO_BEVEL True] by blast
  have fin: "ret out = FINISHED"
    using r selected_nonempty [OF assms(3,4)] by simp
  have m: "the_mesh (ctx_out out) = Some bm'"
    by (simp add: the_mesh_def a)
  have w: "bevelWeight bm' i = 1"
    using converted_bevelWeight [OF e l b assms(3)] assms(4,5) by simp
  have s: "\<not> is_sharp (edges bm' ! i)"
    using assms(3,4,5) by (simp add: e is_sharp_def converted_smooth)
  have q: "quick_convert_sharp_to_bevel True ctx = Inr (quick_report out)"
    by (simp add: quick_convert_sharp_to_bevel_as_execute ex)
  have "ret (quick_report out) = FINISHED" and "the_mesh (ctx_out (quick_report out)) = Some bm'"
    using fin m by simp_all
  with q w s have "\<exists>out bm'. quick_convert_sharp_to_bevel True ctx = Inr out \<and> ret out = FINISHED
            \<and> the_mesh (ctx_out out) = Some bm'
            \<and> bevelWeight bm' i = 1 \<and> \<not> is_sharp (edges bm' ! i)"
    by blast
  moreover from ex fin m w s have "\<exists>out bm'. execute SHARP_TO_BEVEL True ctx = Inr out
            \<and> ret out = FINISHED \<and> the_mesh (ctx_out out) = Some bm'
            \<and> bevelWeight bm' i = 1 \<and> \<not> is_sharp (edges bm' ! i)"
    by blast
  ultimately show ?thesis by simp
qed

theorem sharp_to_bevel_sets_weight_and_clears_sharp_witness:
  "active_object example_ctx = Some example_obj \<and> otype example_obj = ''MESH''
   \<and> 0 < length (edges (data example_obj))
   \<and> select (edges (data example_obj) ! 0) \<and> is_sharp (edges (data example_obj) ! 0)
   \<and> (\<exists>out bm'. execute SHARP_TO_BEVEL True example_ctx = Inr out \<and> ret out = FINISHED
            \<and> the_mesh (ctx_out out) = Some bm'
            \<and> bevelWeight bm' 0 = 1 \<and> \<not> is_sharp (edges bm' ! 0))
   \<and> (\<exists>out bm'. quick_convert_sharp_to_bevel True example_ctx = Inr out \<and> ret out = FINISHED
            \<and> the_mesh (ctx_out out) = Some bm'
            \<and> bevelWeight bm' 0 = 1 \<and> \<not> is_sharp (edges bm' ! 0))"
proof -
  have h1: "active_object example_ctx = Some example_obj"
    and h2: "otype example_obj = ''MESH''"
    and h3: "0 < length (edges (data example_obj))"
    and h4: "select (edges (data example_obj) ! 0)"
    and h5: "is_sharp (edges (data example_obj) ! 0)"
    by (simp_all add: example_facts edge_A_def is_sharp_def)
  from sharp_to_bevel_sets_weight_and_clears_sharp [OF h1 h2 h3 h4 h5] h1 h2 h3 h4 h5
  show ?thesis by blast
qed

text \<open>
  C2. On a mesh with at least one selected edge, the general operator finishes and the count
  it reports is the number of selected edges that satisfy the source predicate of the rule in
  the mesh as it is when the operator is called.
\<close>

theorem modified_count_is_source_count:
  assumes "active_object ctx = Some obj" and "otype obj = ''MESH''"
    and "filter select (edges (data obj)) \<noteq> []"
  shows "\<exists>out. execute ct clear ctx = Inr out \<and> ret out = FINISHED
     \<and> report out =
         (INFO, MsgConverted
            (length (filter (source_predicate ct) (filter select (edges (data obj))))))"
  using execute_outcome [OF assms(1,2), of ct clear] assms(3)
  by (auto simp: source_count_def)

theorem modified_count_is_source_count_witness:
  "active_object example_ctx = Some example_obj \<and> otype example_obj = ''MESH''
   \<and> filter select (edges (data example_obj)) \<noteq> []
   \<and> (\<exists>out. execute SEAM_TO_SHARP False example_ctx = Inr out \<and> ret out = FINISHED
        \<and> report out = (INFO, MsgConverted 1))"
proof -
  have h1: "active_object example_ctx = Some example_obj"
    and h2: "otype example_obj = ''MESH''"
    and h3: "filter select (edges (data example_obj)) \<noteq> []"
    by (simp_all add: example_facts edge_A_def)
  have "length (filter (source_predicate SEAM_TO_SHARP)
          (filter select (edges (data example_obj)))) = 1"
    by (simp add: example_facts edge_A_def edge_B_def edge_C_def edge_D_def)
  with modified_count_is_source_count [OF h1 h2 h3, of SEAM_TO_SHARP False] h1 h2 h3
  show ?thesis by simp
qed

lemma converted_edges_no_selection:
  "filter select (edges bm) = [] \<Longrightarrow> converted_edges ct clear bm = prepared_edges ct bm"
  by (simp add: converted_edges_def convert_selected_def prepared_edges_def filter_empty_conv
      map_idI)

lemma prepared_edges_flags:
  "map select (prepared_edges ct bm) = map select (edges bm)"
  "map smooth (prepared_edges ct bm) = map smooth (edges bm)"
  "map seam (prepared_edges ct bm) = map seam (edges bm)"
  by (simp_all add: prepared_edges_def comp_def)

lemma execute_no_selection:
  assumes "active_object ctx = Some obj" and "otype obj = ''MESH''"
    and "filter select (edges (data obj)) = []"
  shows "cancelled_no_edge_write ct (data obj) (execute ct clear ctx)"
proof -
  let ?bm = "data obj"
  obtain bm' out where ex: "execute ct clear ctx = Inr out"
    and r: "ret out = (if filter select (edges ?bm) = [] then CANCELLED else FINISHED)"
    and rp: "report out = (if filter select (edges ?bm) = [] then (WARNING, MsgNoEdges)
                      else (INFO, MsgConverted (source_count ct ?bm)))"
    and a: "active_object (ctx_out out) = Some (obj\<lparr>data := bm'\<rparr>)"
    and e: "edges bm' = converted_edges ct clear ?bm"
    and l: "layers bm' = prepared_layers ct ?bm"
    and b: "bevel_weight_attr bm' = bevel_weight_attr ?bm"
    using execute_outcome [OF assms(1,2), of ct clear] by blast
  have e': "edges bm' = prepared_edges ct ?bm"
    using e converted_edges_no_selection [OF assms(3)] by simp
  have none: "\<not> select (edges ?bm ! i)" if "i < length (edges ?bm)" for i
    using assms(3) that by (simp add: filter_empty_conv)
  have w: "map (bevelWeight bm') [0..<length (edges ?bm)]
         = map (bevelWeight ?bm) [0..<length (edges ?bm)]"
    using converted_bevelWeight [OF e l b] none by simp
  show ?thesis
    using assms(3) r rp w
    by (simp add: cancelled_no_edge_write_def ex the_mesh_def a e' l prepared_edges_flags)
qed

lemma cancelled_no_edge_write_quick:
  "cancelled_no_edge_write ct bm r \<Longrightarrow>
   cancelled_no_edge_write ct bm (map_sum id quick_report r)"
  by (cases r) (auto simp: cancelled_no_edge_write_def quick_report_def)

text \<open>
  C3, as the code has it. With no edge selected on a mesh object, every operator reports "no
  edges selected" and is cancelled, and no edge attribute is written: the flags and the bevel
  weight of every edge are unchanged. The attribute storage is unchanged when the rule does
  not touch the bevel weight or the bevel-weight layer exists already; otherwise the layer has
  been added, with the default value on every edge, before the selection was looked at.
\<close>

theorem empty_selection_cancels_without_edge_write:
  assumes "active_object ctx = Some obj" and "otype obj = ''MESH''"
    and "filter select (edges (data obj)) = []"
  shows "cancelled_no_edge_write ct (data obj) (execute ct clear ctx)
       \<and> cancelled_no_edge_write SHARP_TO_BEVEL (data obj) (quick_convert_sharp_to_bevel clear ctx)
       \<and> cancelled_no_edge_write SHARP_TO_SEAM (data obj) (quick_convert_sharp_to_seam clear ctx)
       \<and> cancelled_no_edge_write SEAM_TO_SHARP (data obj) (quick_convert_seam_to_sharp clear ctx)
       \<and> cancelled_no_edge_write SEAM_TO_BEVEL (data obj) (quick_convert_seam_to_bevel clear ctx)"
  using execute_no_selection [OF assms]
  by (simp add: quick_convert_sharp_to_bevel_as_execute quick_convert_sharp_to_seam_as_execute
      quick_convert_seam_to_sharp_as_execute quick_convert_seam_to_bevel_as_execute
      cancelled_no_edge_write_quick)

theorem empty_selection_cancels_without_edge_write_witness:
  "active_object unselected_ctx = Some \<lparr>otype = ''MESH'', data = unselected_mesh\<rparr>
   \<and> otype \<lparr>otype = ''MESH'', data = unselected_mesh\<rparr> = ''MESH''
   \<and> filter select (edges (data \<lparr>otype = ''MESH'', data = unselected_mesh\<rparr>)) = []
   \<and> cancelled_no_edge_write SEAM_TO_BEVEL unselected_mesh
        (execute SEAM_TO_BEVEL True unselected_ctx)
   \<and> cancelled_no_edge_write SEAM_TO_BEVEL unselected_mesh
        (quick_convert_seam_to_bevel True unselected_ctx)"
proof -
  let ?obj = "\<lparr>otype = ''MESH'', data = unselected_mesh\<rparr>"
  have h1: "active_object unselected_ctx = Some ?obj"
    and h2: "otype ?obj = ''MESH''"
    and h3: "filter select (edges (data ?obj)) = []"
    by (simp_all add: unselected_ctx_def unselected_mesh_def edge_D_def)
  from empty_selection_cancels_without_edge_write [OF h1 h2 h3, of SEAM_TO_BEVEL True] h1 h2 h3
  show ?thesis by simp
qed

text \<open>
  C3 as stated fails: on a mesh without a bevel-weight layer and with no edge selected, a
  bevel rule is cancelled and yet leaves the mesh with one layer more.
\<close>

theorem empty_selection_allocates_layer:
  "the_mesh unselected_ctx = Some unselected_mesh
   \<and> filter select (edges unselected_mesh) = []
   \<and> layers unselected_mesh = []
   \<and> result_status (execute SHARP_TO_BEVEL True unselected_ctx) = Some CANCELLED
   \<and> map_option layers (result_mesh (execute SHARP_TO_BEVEL True unselected_ctx))
       = Some [FloatLayer ''bevel_weight_edge'']
   \<and> result_status (quick_convert_sharp_to_bevel True unselected_ctx) = Some CANCELLED
   \<and> map_option layers (result_mesh (quick_convert_sharp_to_bevel True unselected_ctx))
       = Some [FloatLayer ''bevel_weight_edge'']"
  by (simp add: execute_def quick_convert_sharp_to_bevel_def ensure_bevel_layer_def
      layers_bevel_weight_verify_def layers_float_get_def layers_float_new_def add_layer_def
      host_log_def selected_edges_of_def store_mesh_def result_status_def result_mesh_def
      the_mesh_def unselected_ctx_def unselected_mesh_def edge_D_def)

text \<open>
  C4. Without an active object, or with an active object that is not a mesh, every operator
  reports "select a mesh object", is cancelled, and returns the context it was given.
\<close>

theorem invalid_target_cancels_unchanged:
  assumes "\<not> valid_target ctx"
  shows "execute ct clear ctx
           = Inr \<lparr>ret = CANCELLED, report = (WARNING, MsgSelectMesh), ctx_out = ctx\<rparr>
       \<and> quick_convert_sharp_to_bevel clear ctx
           = Inr \<lparr>ret = CANCELLED, report = (WARNING, MsgSelectMesh), ctx_out = ctx\<rparr>
       \<and> quick_convert_sharp_to_seam clear ctx
           = Inr \<lparr>ret = CANCELLED, report = (WARNING, MsgSelectMesh), ctx_out = ctx\<rparr>
       \<and> quick_convert_seam_to_sharp clear ctx
           = Inr \<lparr>ret = CANCELLED, report = (WARNING, MsgSelectMesh), ctx_out = ctx\<rparr>
       \<and> quick_convert_seam_to_bevel clear ctx
           = Inr \<lparr>ret = CANCELLED, report = (WARNING, MsgSelectMesh), ctx_out = ctx\<rparr>"
  using assms
  by (simp add: valid_target_def execute_def quick_convert_sharp_to_bevel_def quick_convert_sharp_to_seam_def
      quick_convert_seam_to_sharp_def quick_convert_seam_to_bevel_def split: option.splits)

theorem invalid_target_cancels_unchanged_witness:
  "\<not> valid_target curve_ctx
   \<and> execute SHARP_TO_BEVEL True curve_ctx
       = Inr \<lparr>ret = CANCELLED, report = (WARNING, MsgSelectMesh), ctx_out = curve_ctx\<rparr>
   \<and> quick_convert_seam_to_bevel True curve_ctx
       = Inr \<lparr>ret = CANCELLED, report = (WARNING, MsgSelectMesh), ctx_out = curve_ctx\<rparr>
   \<and> \<not> valid_target \<lparr>active_object = None, mode = ''OBJECT''\<rparr>
   \<and> execute SEAM_TO_SHARP False \<lparr>active_object = None, mode = ''OBJECT''\<rparr>
       = Inr \<lparr>ret = CANCELLED, report = (WARNING, MsgSelectMesh),
              ctx_out = \<lparr>active_object = None, mode = ''OBJECT''\<rparr>\<rparr>"
proof -
  have h1: "\<not> valid_target curve_ctx"
    by (simp add: valid_target_def curve_ctx_def)
  have h2: "\<not> valid_target \<lparr>active_object = None, mode = ''OBJECT''\<rparr>"
    by (simp add: valid_target_def)
  from invalid_target_cancels_unchanged [OF h1, of SHARP_TO_BEVEL True]
    invalid_target_cancels_unchanged [OF h2, of SEAM_TO_SHARP False] h1 h2
  show ?thesis by simp
qed

lemma execute_keeps_non_source_edge:
  assumes "active_object ctx = Some obj" and "otype obj = ''MESH''"
    and "i < length (edges (data obj))"
    and "\<not> source_predicate ct (edges (data obj) ! i)"
  shows "edge_unmodified (data obj) i (execute ct clear ctx)"
proof -
  let ?bm = "data obj"
  obtain bm' out where ex: "execute ct clear ctx = Inr out"
    and a: "active_object (ctx_out out) = Some (obj\<lparr>data := bm'\<rparr>)"
    and e: "edges bm' = converted_edges ct clear ?bm"
    and l: "layers bm' = prepared_layers ct ?bm"
    and b: "bevel_weight_attr bm' = bevel_weight_attr ?bm"
    using execute_outcome [OF assms(1,2), of ct clear] by blast
  have w: "bevelWeight bm' i = bevelWeight ?bm i"
    using converted_bevelWeight [OF e l b assms(3)] assms(4) by simp
  show ?thesis
    using assms(3,4) w
    by (simp add: edge_unmodified_def result_mesh_def ex the_mesh_def a e is_sharp_def
        converted_smooth converted_seam converted_select)
qed

lemma edge_unmodified_quick:
  "edge_unmodified bm i (map_sum id quick_report r) = edge_unmodified bm i r"
  by (cases r) (simp_all add: edge_unmodified_def result_mesh_def)

text \<open>
  C5. An edge that is not sharp before a sharp-sourced conversion (general operator with
  \<open>SHARP_TO_BEVEL\<close> or \<open>SHARP_TO_SEAM\<close>, or the two quick operators) keeps its sharpness, its
  seam flag, its selection and its bevel weight, whatever \<open>clear_original\<close> is.
\<close>

theorem non_sharp_edge_unmodified:
  assumes "active_object ctx = Some obj" and "otype obj = ''MESH''"
    and "i < length (edges (data obj))"
    and "\<not> is_sharp (edges (data obj) ! i)"
  shows "edge_unmodified (data obj) i (execute SHARP_TO_BEVEL clear ctx)
       \<and> edge_unmodified (data obj) i (execute SHARP_TO_SEAM clear ctx)
       \<and> edge_unmodified (data obj) i (quick_convert_sharp_to_bevel clear ctx)
       \<and> edge_unmodified (data obj) i (quick_convert_sharp_to_seam clear ctx)"
  using execute_keeps_non_source_edge [OF assms(1,2,3), of SHARP_TO_BEVEL clear]
    execute_keeps_non_source_edge [OF assms(1,2,3), of SHARP_TO_SEAM clear] assms(4)
  by (simp add: quick_convert_sharp_to_bevel_as_execute quick_convert_sharp_to_seam_as_execute
      edge_unmodified_quick)

theorem non_sharp_edge_unmodified_witness:
  "active_object example_ctx = Some example_obj \<and> otype example_obj = ''MESH''
   \<and> 1 < length (edges (data example_obj))
   \<and> \<not> is_sharp (edges (data example_obj) ! 1)
   \<and> edge_unmodified (data example_obj) 1 (execute SHARP_TO_BEVEL True example_ctx)
   \<and> edge_unmodified (data example_obj) 1 (execute SHARP_TO_SEAM False example_ctx)
   \<and> edge_unmodified (data example_obj) 1 (quick_convert_sharp_to_bevel True example_ctx)
   \<and> edge_unmodified (data example_obj) 1 (quick_convert_sharp_to_seam False example_ctx)"
proof -
  have h1: "active_object example_ctx = Some example_obj"
    and h2: "otype example_obj = ''MESH''"
    and h3: "1 < length (edges (data example_obj))"
    and h4: "\<not> is_sharp (edges (data example_obj) ! 1)"
    by (simp_all add: example_facts edge_B_def is_sharp_def)
  from non_sharp_edge_unmodified [OF h1 h2 h3 h4, of True]
    non_sharp_edge_unmodified [OF h1 h2 h3 h4, of False] h1 h2 h3 h4
  show ?thesis by simp
qed

section \<open>Two runs in a row\<close>

lemma execute_twice:
  assumes "active_object ctx = Some obj" and "otype obj = ''MESH''"
  shows "\<exists>bm1 out1 bm2 out2.
       execute ct1 c1 ctx = Inr out1
     \<and> ret out1 = (if filter select (edges (data obj)) = [] then CANCELLED else FINISHED)
     \<and> active_object (ctx_out out1) = Some (obj\<lparr>data := bm1\<rparr>)
     \<and> edges bm1 = converted_edges ct1 c1 (data obj)
     \<and> layers bm1 = prepared_layers ct1 (data obj)
     \<and> bevel_weight_attr bm1 = bevel_weight_attr (data obj)
     \<and> execute ct2 c2 (ctx_out out1) = Inr out2
     \<and> ret out2 = (if filter select (edges bm1) = [] then CANCELLED else FINISHED)
     \<and> report out2 = (if filter select (edges bm1) = [] then (WARNING, MsgNoEdges)
                       else (INFO, MsgConverted (source_count ct2 bm1)))
     \<and> active_object (ctx_out out2) = Some (obj\<lparr>data := bm2\<rparr>)
     \<and> edges bm2 = converted_edges ct2 c2 bm1
     \<and> layers bm2 = prepared_layers ct2 bm1
     \<and> bevel_weight_attr bm2 = bevel_weight_attr bm1"
proof -
  obtain bm1 out1 where ex1: "execute ct1 c1 ctx = Inr out1"
    and r1: "ret out1 = (if filter select (edges (data obj)) = [] then CANCELLED else FINISHED)"
    and a1: "active_object (ctx_out out1) = Some (obj\<lparr>data := bm1\<rparr>)"
    and e1: "edges bm1 = converted_edges ct1 c1 (data obj)"
    and l1: "layers bm1 = prepared_layers ct1 (data obj)"
    and b1: "bevel_weight_attr bm1 = bevel_weight_attr (data obj)"
    using execute_outcome [OF assms, of ct1 c1] by blast
  have t1: "otype (obj\<lparr>data := bm1\<rparr>) = ''MESH''" using assms(2) by simp
  obtain bm2 out2 where ex2: "execute ct2 c2 (ctx_out out1) = Inr out2"
    and r2: "ret out2 = (if filter select (edges (data (obj\<lparr>data := bm1\<rparr>))) = []
                         then CANCELLED else FINISHED)"
    and rp2: "report out2 = (if filter select (edges (data (obj\<lparr>data := bm1\<rparr>))) = []
                       then (WARNING, MsgNoEdges)
                       else (INFO, MsgConverted (source_count ct2 (data (obj\<lparr>data := bm1\<rparr>)))))"
    and a2: "active_object (ctx_out out2) = Some (obj\<lparr>data := bm1\<rparr>\<lparr>data := bm2\<rparr>)"
    and e2: "edges bm2 = converted_edges ct2 c2 (data (obj\<lparr>data := bm1\<rparr>))"
    and l2: "layers bm2 = prepared_layers ct2 (data (obj\<lparr>data := bm1\<rparr>))"
    and b2: "bevel_weight_attr bm2 = bevel_weight_attr (data (obj\<lparr>data := bm1\<rparr>))"
    using execute_outcome [OF a1 t1, of ct2 c2] by blast
  show ?thesis
    using ex1 r1 a1 e1 l1 b1 ex2 r2 rp2 a2 e2 l2 b2
    by (intro exI [of _ bm1] exI [of _ out1] exI [of _ bm2] exI [of _ out2]) simp
qed

text \<open>
  C6. On an edge that is selected and sharp, sharp-to-seam with \<open>clear_original\<close> followed by
  seam-to-sharp with \<open>clear_original\<close> ends with the edge sharp and not a seam; with the
  general operator as with the two quick operators.
\<close>

theorem sharp_seam_round_trip:
  assumes "active_object ctx = Some obj" and "otype obj = ''MESH''"
    and "i < length (edges (data obj))"
    and "select (edges (data obj) ! i)" and "is_sharp (edges (data obj) ! i)"
  shows "(\<exists>out1 out2 bm2. execute SHARP_TO_SEAM True ctx = Inr out1
            \<and> execute SEAM_TO_SHARP True (ctx_out out1) = Inr out2
            \<and> the_mesh (ctx_out out2) = Some bm2
            \<and> is_sharp (edges bm2 ! i) \<and> \<not> seam (edges bm2 ! i))
       \<and> (\<exists>out1 out2 bm2. quick_convert_sharp_to_seam True ctx = Inr out1
            \<and> quick_convert_seam_to_sharp True (ctx_out out1) = Inr out2
            \<and> the_mesh (ctx_out out2) = Some bm2
            \<and> is_sharp (edges bm2 ! i) \<and> \<not> seam (edges bm2 ! i))"
proof -
  obtain bm1 out1 bm2 out2 where ex1: "execute SHARP_TO_SEAM True ctx = Inr out1"
    and e1: "edges bm1 = converted_edges SHARP_TO_SEAM True (data obj)"
    and ex2: "execute SEAM_TO_SHARP True (ctx_out out1) = Inr out2"
    and a2: "active_object (ctx_out out2) = Some (obj\<lparr>data := bm2\<rparr>)"
    and e2: "edges bm2 = converted_edges SEAM_TO_SHARP True bm1"
    using execute_twice [OF assms(1,2), of SHARP_TO_SEAM True SEAM_TO_SHARP True] by blast
  have i1: "i < length (edges bm1)" using assms(3) by (simp add: e1)
  have first: "select (edges bm1 ! i)" "seam (edges bm1 ! i)"
    using assms(3,4,5) by (simp_all add: e1 converted_select converted_seam)
  have last: "is_sharp (edges bm2 ! i)" "\<not> seam (edges bm2 ! i)"
    using i1 first by (simp_all add: e2 is_sharp_def converted_smooth converted_seam)
  have m: "the_mesh (ctx_out out2) = Some bm2" by (simp add: the_mesh_def a2)
  have q1: "quick_convert_sharp_to_seam True ctx = Inr (quick_report out1)"
    by (simp add: quick_convert_sharp_to_seam_as_execute ex1)
  have q2: "quick_convert_seam_to_sharp True (ctx_out (quick_report out1)) = Inr (quick_report out2)"
    by (simp add: quick_convert_seam_to_sharp_as_execute ex2)
  have qm: "the_mesh (ctx_out (quick_report out2)) = Some bm2" using m by simp
  from ex1 ex2 m last have "\<exists>out1 out2 bm2. execute SHARP_TO_SEAM True ctx = Inr out1
            \<and> execute SEAM_TO_SHARP True (ctx_out out1) = Inr out2
            \<and> the_mesh (ctx_out out2) = Some bm2
            \<and> is_sharp (edges bm2 ! i) \<and> \<not> seam (edges bm2 ! i)"
    by blast
  moreover from q1 q2 qm last have "\<exists>out1 out2 bm2. quick_convert_sharp_to_seam True ctx = Inr out1
            \<and> quick_convert_seam_to_sharp True (ctx_out out1) = Inr out2
            \<and> the_mesh (ctx_out out2) = Some bm2
            \<and> is_sharp (edges bm2 ! i) \<and> \<not> seam (edges bm2 ! i)"
    by blast
  ultimately show ?thesis by simp
qed

theorem sharp_seam_round_trip_witness:
  "active_object example_ctx = Some example_obj \<and> otype example_obj = ''MESH''
   \<and> 0 < length (edges (data example_obj))
   \<and> select (edges (data example_obj) ! 0) \<and> is_sharp (edges (data example_obj) ! 0)
   \<and> (\<exists>out1 out2 bm2. execute SHARP_TO_SEAM True example_ctx = Inr out1
            \<and> execute SEAM_TO_SHARP True (ctx_out out1) = Inr out2
            \<and> the_mesh (ctx_out out2) = Some bm2
            \<and> is_sharp (edges bm2 ! 0) \<and> \<not> seam (edges bm2 ! 0))
   \<and> (\<exists>out1 out2 bm2. quick_convert_sharp_to_seam True example_ctx = Inr out1
            \<and> quick_convert_seam_to_sharp True (ctx_out out1) = Inr out2
            \<and> the_mesh (ctx_out out2) = Some bm2
            \<and> is_sharp (edges bm2 ! 0) \<and> \<not> seam (edges bm2 ! 0))"
proof -
  have h1: "active_object example_ctx = Some example_obj"
    and h2: "otype example_obj = ''MESH''"
    and h3: "0 < length (edges (data example_obj))"
    and h4: "select (edges (data example_obj) ! 0)"
    and h5: "is_sharp (edges (data example_obj) ! 0)"
    by (simp_all add: example_facts edge_A_def is_sharp_def)
  from sharp_seam_round_trip [OF h1 h2 h3 h4 h5] h1 h2 h3 h4 h5
  show ?thesis by blast
qed

lemma capture_follows_ensure_intro:
  assumes "pre \<noteq> []" and "list_all layer_call pre" and "l \<in> set ls"
    and "list_all after_capture post"
  shows "capture_follows_ensure l (pre @ EdgesIter ls # post)"
proof -
  have all: "\<forall>c\<in>set pre. layer_call c" using assms(2) by (simp add: list_all_iff)
  have d: "dropWhile layer_call (pre @ EdgesIter ls # post) = EdgesIter ls # post"
    using all by (simp add: dropWhile_append2)
  have t: "takeWhile layer_call (pre @ EdgesIter ls # post) = pre"
    using all by (simp add: takeWhile_append2)
  show ?thesis
    using assms(1,3,4) by (simp add: capture_follows_ensure_def d t)
qed

lemma execute_storage_before_capture:
  assumes "active_object ctx = Some obj" and "otype obj = ''MESH''"
    and "touches_bevel ct"
  shows "storage_before_capture (data obj) (execute ct clear ctx)"
proof -
  let ?bm = "data obj"
  obtain bm' pre post where
    ex: "execute ct clear ctx =
       Inr \<lparr>ret = (if filter select (edges ?bm) = [] then CANCELLED else FINISHED),
            report = (if filter select (edges ?bm) = [] then (WARNING, MsgNoEdges)
                      else (INFO, MsgConverted (source_count ct ?bm))),
            ctx_out = store_mesh (if mode ctx \<noteq> ''EDIT_MESH'' then mode_set_EDIT ctx else ctx)
                        obj bm'\<rparr>"
    and j: "journal bm' = journal ?bm @ pre @ EdgesIter (prepared_layers ct ?bm) # post"
    and p: "list_all layer_call pre" and ne: "pre \<noteq> [] \<longleftrightarrow> touches_bevel ct"
    and q: "list_all after_capture post"
    using execute_result [OF assms(1,2), of ct clear] by blast
  have m: "result_mesh (execute ct clear ctx) = Some bm'"
    by (simp add: ex result_mesh_def the_mesh_def store_mesh_def)
  have l: "bevel_layer_of ?bm \<in> set (prepared_layers ct ?bm)"
    using assms(3) by (simp add: prepared_layers_def)
  have "capture_follows_ensure (bevel_layer_of ?bm)
          (pre @ EdgesIter (prepared_layers ct ?bm) # post)"
    using capture_follows_ensure_intro [OF _ p l q] ne assms(3) by simp
  then show ?thesis
    by (simp add: storage_before_capture_def m j)
qed

lemma storage_before_capture_quick:
  "storage_before_capture bm (map_sum id quick_report r) = storage_before_capture bm r"
  by (cases r) (simp_all add: storage_before_capture_def result_mesh_def)

text \<open>
  C7. In a run of an operator whose rule touches the bevel weight, on a mesh object, the
  calls that obtain the bevel-weight layer come first, the edges are enumerated after them on
  a mesh that has the layer, and after the enumeration only edges are written and the mesh is
  updated.
\<close>

theorem bevel_layer_ensured_before_edges_captured:
  assumes "active_object ctx = Some obj" and "otype obj = ''MESH''"
    and "touches_bevel ct"
  shows "storage_before_capture (data obj) (execute ct clear ctx)
       \<and> storage_before_capture (data obj) (quick_convert_sharp_to_bevel clear ctx)
       \<and> storage_before_capture (data obj) (quick_convert_seam_to_bevel clear ctx)"
  using execute_storage_before_capture [OF assms(1,2), of ct clear]
    execute_storage_before_capture [OF assms(1,2), of SHARP_TO_BEVEL clear]
    execute_storage_before_capture [OF assms(1,2), of SEAM_TO_BEVEL clear] assms(3)
  by (simp add: quick_convert_sharp_to_bevel_as_execute quick_convert_seam_to_bevel_as_execute
      storage_before_capture_quick)

theorem bevel_layer_ensured_before_edges_captured_witness:
  "active_object example_ctx = Some example_obj \<and> otype example_obj = ''MESH''
   \<and> touches_bevel SEAM_TO_BEVEL
   \<and> storage_before_capture (data example_obj) (execute SEAM_TO_BEVEL True example_ctx)
   \<and> storage_before_capture (data example_obj) (quick_convert_sharp_to_bevel True example_ctx)
   \<and> storage_before_capture (data example_obj) (quick_convert_seam_to_bevel True example_ctx)"
proof -
  have h1: "active_object example_ctx = Some example_obj"
    and h2: "otype example_obj = ''MESH''"
    and h3: "touches_bevel SEAM_TO_BEVEL"
    by (simp_all add: example_facts)
  from bevel_layer_ensured_before_edges_captured [OF h1 h2 h3, of True] h1 h2 h3
  show ?thesis by simp
qed

text \<open>
  C8. Where the host has no dedicated bevel-weight collection, \<open>ensure_bevel_layer\<close> raises
  nothing: it returns the float layer named \<open>bevel_weight_edge\<close>, the one the mesh has or a
  new one, and the mesh has that layer afterwards. The operators that call it raise nothing
  either, and are cancelled only when no edge is selected.
\<close>

theorem fallback_layer_when_attribute_missing:
  assumes "layers_bevel_weight_verify (data obj) = Inl AttributeError"
    and "active_object ctx = Some obj" and "otype obj = ''MESH''"
  shows "(\<exists>bm1. ensure_bevel_layer (data obj) = Inr (FloatLayer ''bevel_weight_edge'', bm1)
            \<and> FloatLayer ''bevel_weight_edge'' \<in> set (layers bm1)
            \<and> (if FloatLayer ''bevel_weight_edge'' \<in> set (layers (data obj))
                then layers bm1 = layers (data obj) \<and> edges bm1 = edges (data obj)
                else layers bm1 = layers (data obj) @ [FloatLayer ''bevel_weight_edge'']
                   \<and> edges bm1
                       = map (init_layer (FloatLayer ''bevel_weight_edge'')) (edges (data obj))))
       \<and> result_status (execute ct clear ctx)
           = Some (if filter select (edges (data obj)) = [] then CANCELLED else FINISHED)
       \<and> result_status (quick_convert_sharp_to_bevel clear ctx)
           = Some (if filter select (edges (data obj)) = [] then CANCELLED else FINISHED)
       \<and> result_status (quick_convert_seam_to_bevel clear ctx)
           = Some (if filter select (edges (data obj)) = [] then CANCELLED else FINISHED)"
proof -
  let ?bm = "data obj"
  have attr: "\<not> bevel_weight_attr ?bm"
    using assms(1) by (auto simp: layers_bevel_weight_verify_def Let_def split: if_splits)
  then have l: "bevel_layer_of ?bm = FloatLayer ''bevel_weight_edge''"
    by (simp add: bevel_layer_of_def)
  have ens: "\<exists>bm1. ensure_bevel_layer ?bm = Inr (FloatLayer ''bevel_weight_edge'', bm1)
            \<and> FloatLayer ''bevel_weight_edge'' \<in> set (layers bm1)
            \<and> (if FloatLayer ''bevel_weight_edge'' \<in> set (layers ?bm)
                then layers bm1 = layers ?bm \<and> edges bm1 = edges ?bm
                else layers bm1 = layers ?bm @ [FloatLayer ''bevel_weight_edge'']
                   \<and> edges bm1 = map (init_layer (FloatLayer ''bevel_weight_edge'')) (edges ?bm))"
    using ensure_bevel_layer_result [of ?bm] by (auto simp: l)
  have st: "result_status (execute ct' clear ctx)
           = Some (if filter select (edges ?bm) = [] then CANCELLED else FINISHED)" for ct'
    using execute_outcome [OF assms(2,3), of ct' clear] by (auto simp: result_status_def)
  have qs: "result_status (map_sum id quick_report r) = result_status r" for r
    by (cases r) (simp_all add: result_status_def)
  show ?thesis
    using ens st [of ct] st [of SHARP_TO_BEVEL] st [of SEAM_TO_BEVEL]
    by (simp add: quick_convert_sharp_to_bevel_as_execute quick_convert_seam_to_bevel_as_execute qs)
qed

theorem fallback_layer_when_attribute_missing_witness:
  "layers_bevel_weight_verify (data example_obj) = Inl AttributeError
   \<and> active_object example_ctx = Some example_obj \<and> otype example_obj = ''MESH''
   \<and> (\<exists>bm1. ensure_bevel_layer (data example_obj) = Inr (FloatLayer ''bevel_weight_edge'', bm1)
            \<and> FloatLayer ''bevel_weight_edge'' \<in> set (layers bm1)
            \<and> layers bm1 = [FloatLayer ''bevel_weight_edge''])
   \<and> result_status (execute SHARP_TO_BEVEL True example_ctx) = Some FINISHED
   \<and> result_status (quick_convert_sharp_to_bevel True example_ctx) = Some FINISHED
   \<and> result_status (quick_convert_seam_to_bevel True example_ctx) = Some FINISHED"
proof -
  have h1: "layers_bevel_weight_verify (data example_obj) = Inl AttributeError"
    by (simp add: layers_bevel_weight_verify_def example_obj_def example_mesh_def)
  have h2: "active_object example_ctx = Some example_obj"
    and h3: "otype example_obj = ''MESH''"
    by (simp_all add: example_facts)
  have sel: "filter select (edges (data example_obj)) \<noteq> []"
    and lay: "layers (data example_obj) = []"
    by (simp_all add: example_obj_def example_mesh_def edge_A_def)
  from fallback_layer_when_attribute_missing [OF h1 h2 h3, of SHARP_TO_BEVEL True]
    h1 h2 h3 sel lay
  show ?thesis by auto
qed

lemma same_run_quick_report: "same_run r (map_sum id quick_report r)"
  by (cases r) (auto simp: same_run_def quick_report_def split: prod.splits message.splits)

text \<open>
  C9. Each quick operator does what the general operator does with the corresponding
  conversion type and the same \<open>clear_original\<close>: the same return value, the same context
  and mesh afterwards (every edge attribute, every layer, every host call), and a report of
  the same level with the same count. Only the wording of the message differs.
\<close>

theorem quick_operators_agree_with_general:
  "same_run (execute SHARP_TO_BEVEL clear ctx) (quick_convert_sharp_to_bevel clear ctx)
   \<and> same_run (execute SHARP_TO_SEAM clear ctx) (quick_convert_sharp_to_seam clear ctx)
   \<and> same_run (execute SEAM_TO_SHARP clear ctx) (quick_convert_seam_to_sharp clear ctx)
   \<and> same_run (execute SEAM_TO_BEVEL clear ctx) (quick_convert_seam_to_bevel clear ctx)"
  by (simp add: quick_convert_sharp_to_bevel_as_execute quick_convert_sharp_to_seam_as_execute
      quick_convert_seam_to_sharp_as_execute quick_convert_seam_to_bevel_as_execute same_run_quick_report)

lemma convert_selected_clears_source:
  "\<not> (select (convert_selected ct True l e) \<and> source_predicate ct (convert_selected ct True l e))"
  by (cases ct) (auto simp: convert_selected_def is_sharp_def Let_def)

lemma converted_edges_select:
  "map select (converted_edges ct clear bm) = map select (edges bm)"
  by (rule nth_equalityI) (simp_all add: converted_select)

lemma filter_empty_by_map:
  "map P xs = map P ys \<Longrightarrow> filter P xs = [] \<longleftrightarrow> filter P ys = []"
proof -
  assume m: "map P xs = map P ys"
  have c: "filter P zs = [] \<longleftrightarrow> True \<notin> set (map P zs)" for zs
    by (auto simp: filter_empty_conv)
  show ?thesis by (simp only: c [of xs] c [of ys] m)
qed

lemma second_pass_converts_nothing:
  assumes "edges bm1 = converted_edges ct True bm"
    and "layers bm1 = prepared_layers ct bm"
    and "bevel_weight_attr bm1 = bevel_weight_attr bm"
  shows "converted_edges ct True bm1 = edges bm1"
    and "prepared_layers ct bm1 = layers bm1"
    and "source_count ct bm1 = 0"
proof -
  have l: "bevel_layer_of bm1 = bevel_layer_of bm"
    by (simp add: bevel_layer_of_def assms(3))
  have there: "touches_bevel ct \<longrightarrow> bevel_layer_of bm1 \<in> set (layers bm1)"
    by (simp add: l assms(2) prepared_layers_def)
  then show "prepared_layers ct bm1 = layers bm1"
    by (auto simp: prepared_layers_def)
  have p: "prepared_edges ct bm1 = edges bm1"
    using there by (auto simp: prepared_edges_def)
  have none: "\<not> (select e \<and> source_predicate ct e)" if "e \<in> set (edges bm1)" for e
    using that convert_selected_clears_source [of ct "bevel_layer_of bm"]
    by (auto simp: assms(1) converted_edges_def)
  have "map (convert_selected ct True (bevel_layer_of bm1)) (edges bm1) = edges bm1"
  proof (rule map_idI)
    fix e assume "e \<in> set (edges bm1)"
    then show "convert_selected ct True (bevel_layer_of bm1) e = e"
      using none [of e] by (auto simp: convert_selected_def)
  qed
  then show "converted_edges ct True bm1 = edges bm1"
    by (simp add: converted_edges_def p)
  show "source_count ct bm1 = 0"
    using none by (auto simp: source_count_def filter_empty_conv)
qed

text \<open>
  C10. After a run of the general operator with \<open>clear_original\<close> on a mesh object, a second
  run with the same rule returns what the first returned and leaves every edge and every
  layer as the first run left them; when edges are selected, both runs finish and the second
  reports zero converted edges.
\<close>

theorem reapplying_rule_with_clear_changes_nothing:
  assumes "active_object ctx = Some obj" and "otype obj = ''MESH''"
  shows "\<exists>out1 bm1 out2 bm2.
       execute ct True ctx = Inr out1
     \<and> the_mesh (ctx_out out1) = Some bm1
     \<and> execute ct True (ctx_out out1) = Inr out2
     \<and> the_mesh (ctx_out out2) = Some bm2
     \<and> edges bm2 = edges bm1 \<and> layers bm2 = layers bm1
     \<and> ret out2 = ret out1
     \<and> (filter select (edges (data obj)) \<noteq> [] \<longrightarrow>
           ret out1 = FINISHED \<and> report out2 = (INFO, MsgConverted 0))"
proof -
  obtain bm1 out1 bm2 out2 where ex1: "execute ct True ctx = Inr out1"
    and r1: "ret out1 = (if filter select (edges (data obj)) = [] then CANCELLED else FINISHED)"
    and a1: "active_object (ctx_out out1) = Some (obj\<lparr>data := bm1\<rparr>)"
    and e1: "edges bm1 = converted_edges ct True (data obj)"
    and l1: "layers bm1 = prepared_layers ct (data obj)"
    and b1: "bevel_weight_attr bm1 = bevel_weight_attr (data obj)"
    and ex2: "execute ct True (ctx_out out1) = Inr out2"
    and r2: "ret out2 = (if filter select (edges bm1) = [] then CANCELLED else FINISHED)"
    and rp2: "report out2 = (if filter select (edges bm1) = [] then (WARNING, MsgNoEdges)
                       else (INFO, MsgConverted (source_count ct bm1)))"
    and a2: "active_object (ctx_out out2) = Some (obj\<lparr>data := bm2\<rparr>)"
    and e2: "edges bm2 = converted_edges ct True bm1"
    and l2: "layers bm2 = prepared_layers ct bm1"
    using execute_twice [OF assms(1,2), of ct True ct True] by blast
  have sel1: "filter select (edges bm1) = [] \<longleftrightarrow> filter select (edges (data obj)) = []"
    using filter_empty_by_map [OF converted_edges_select [of ct True "data obj"]]
    by (simp add: e1)
  have m1: "the_mesh (ctx_out out1) = Some bm1" by (simp add: the_mesh_def a1)
  have m2: "the_mesh (ctx_out out2) = Some bm2" by (simp add: the_mesh_def a2)
  have rr: "ret out2 = ret out1" using r1 r2 sel1 by simp
  have fin: "filter select (edges (data obj)) \<noteq> [] \<longrightarrow>
           ret out1 = FINISHED \<and> report out2 = (INFO, MsgConverted 0)"
    using r1 rp2 sel1 second_pass_converts_nothing(3) [OF e1 l1 b1] by simp
  have same: "edges bm2 = edges bm1" "layers bm2 = layers bm1"
    using second_pass_converts_nothing(1,2) [OF e1 l1 b1] by (simp_all add: e2 l2)
  from ex1 m1 ex2 m2 same rr fin show ?thesis by blast
qed

theorem reapplying_rule_with_clear_changes_nothing_witness:
  "active_object example_ctx = Some example_obj \<and> otype example_obj = ''MESH''
   \<and> filter select (edges (data example_obj)) \<noteq> []
   \<and> (\<exists>out1 bm1 out2 bm2.
       execute SHARP_TO_BEVEL True example_ctx = Inr out1 \<and> ret out1 = FINISHED
     \<and> the_mesh (ctx_out out1) = Some bm1
     \<and> execute SHARP_TO_BEVEL True (ctx_out out1) = Inr out2 \<and> ret out2 = FINISHED
     \<and> report out2 = (INFO, MsgConverted 0)
     \<and> the_mesh (ctx_out out2) = Some bm2
     \<and> edges bm2 = edges bm1 \<and> layers bm2 = layers bm1)"
proof -
  have h1: "active_object example_ctx = Some example_obj"
    and h2: "otype example_obj = ''MESH''"
    and h3: "filter select (edges (data example_obj)) \<noteq> []"
    by (simp_all add: example_facts edge_A_def)
  obtain out1 bm1 out2 bm2 where
    r: "execute SHARP_TO_BEVEL True example_ctx = Inr out1"
       "the_mesh (ctx_out out1) = Some bm1"
       "execute SHARP_TO_BEVEL True (ctx_out out1) = Inr out2"
       "the_mesh (ctx_out out2) = Some bm2"
       "edges bm2 = edges bm1" "layers bm2 = layers bm1"
    and same: "ret out2 = ret out1"
    and fin: "filter select (edges (data example_obj)) \<noteq> [] \<longrightarrow>
           ret out1 = FINISHED \<and> report out2 = (INFO, MsgConverted 0)"
    using reapplying_rule_with_clear_changes_nothing [OF h1 h2, of SHARP_TO_BEVEL] by blast
  have f: "ret out1 = FINISHED" "ret out2 = FINISHED" "report out2 = (INFO, MsgConverted 0)"
    using fin h3 same by simp_all
  from r f h1 h2 h3 show ?thesis by blast
qed

end
